theory Spec2Isabelle
  imports Main
begin

section \<open>Go values and library functions used by the executor\<close>

text \<open>
  The development follows \<^verbatim>\<open>src/terraform/executor.go\<close>. Go strings are byte
  strings (\<^typ>\<open>string\<close>); the texts that matter here are ASCII, where a byte and a
  code point are the same thing. A Go \<^verbatim>\<open>error\<close> is identified with its message,
  and a function returning \<^verbatim>\<open>(T, error)\<close> returns a sum whose left injection
  is the non-nil error.
\<close>

abbreviation newline :: char where "newline \<equiv> CHR 0x0A"
abbreviation dquote :: char where "dquote \<equiv> CHR 0x22"
abbreviation backslash :: char where "backslash \<equiv> CHR 0x5C"

datatype error = Error string

fun error_text :: "error \<Rightarrow> string" where
  "error_text (Error msg) = msg"

text \<open>\<^verbatim>\<open>errors.New(msg)\<close>.\<close>

definition errors_New :: "string \<Rightarrow> error" where
  "errors_New msg = Error msg"

text \<open>\<^verbatim>\<open>fmt.Errorf(prefix + "%s", err)\<close>: the prefix followed by \<^verbatim>\<open>err.Error()\<close>.\<close>

definition fmt_Errorf :: "string \<Rightarrow> error \<Rightarrow> error" where
  "fmt_Errorf prefix err = Error (prefix @ error_text err)"

definition redactedError :: string where
  "redactedError = ''Some output has been redacted, use `bbl latest-error` to see it or run again with --debug for additional debug output''"

text \<open>\<^verbatim>\<open>strings.Contains\<close>, \<^verbatim>\<open>strings.HasSuffix\<close>, \<^verbatim>\<open>strings.TrimSuffix\<close>,
  \<^verbatim>\<open>strings.Join\<close>.\<close>

fun strings_Contains :: "string \<Rightarrow> string \<Rightarrow> bool" where
  "strings_Contains [] substr = (substr = [])"
| "strings_Contains (c # cs) substr =
     (take (length substr) (c # cs) = substr \<or> strings_Contains cs substr)"

definition strings_HasSuffix :: "string \<Rightarrow> string \<Rightarrow> bool" where
  "strings_HasSuffix s suffix =
     (length suffix \<le> length s \<and> drop (length s - length suffix) s = suffix)"

definition strings_TrimSuffix :: "string \<Rightarrow> string \<Rightarrow> string" where
  "strings_TrimSuffix s suffix =
     (if strings_HasSuffix s suffix then take (length s - length suffix) s else s)"

fun strings_Join :: "string list \<Rightarrow> string \<Rightarrow> string" where
  "strings_Join [] sep = []"
| "strings_Join [x] sep = x"
| "strings_Join (x # y # ys) sep = x @ sep @ strings_Join (y # ys) sep"

text \<open>
  \<^verbatim>\<open>strings.Replace(s, old, new, n)\<close>: the first \<open>n\<close> non-overlapping occurrences of
  \<open>old\<close> replaced from the left, all of them when \<open>n < 0\<close>. The executor only calls it
  with a one-character \<open>old\<close>; the empty \<open>old\<close> (where Go inserts \<open>new\<close> around every
  code point) is not modelled and leaves \<open>s\<close> as it is.
\<close>

function strings_Replace :: "string \<Rightarrow> string \<Rightarrow> string \<Rightarrow> int \<Rightarrow> string" where
  "strings_Replace s old new n =
     (if n = 0 \<or> old = [] \<or> s = [] then s
      else if take (length old) s = old
        then new @ strings_Replace (drop (length old) s) old new (n - 1)
        else hd s # strings_Replace (tl s) old new n)"
  by pat_completeness auto
termination
  by (relation "measure (\<lambda>(s, old, new, n). length s)") auto

section \<open>The Variable Formatter\<close>

text \<open>
  The values of \<^verbatim>\<open>map[string]interface{}\<close>: a string, a \<^verbatim>\<open>[]string\<close>, or a value
  of any other dynamic type, which \<^verbatim>\<open>formatVars\<close> hands to the \<^verbatim>\<open>%s\<close> verb as it is;
  \<open>Other\<close> carries the text \<^verbatim>\<open>%s\<close> prints for it (for a \<^verbatim>\<open>[]byte\<close>, the bytes
  themselves). A Go map is iterated in an order
  the language does not fix, so the mapping is the list of its entries in the order
  the \<^verbatim>\<open>range\<close> loop visits them.
\<close>

datatype input = Scalar string | StringList "string list" | Other string

text \<open>The body of the loop: the value is converted by its dynamic type, then appended
  by \<^verbatim>\<open>fmt.Sprintf("%s\n%s=%s", formattedVars, name, value)\<close>.\<close>

definition formatValue :: "input \<Rightarrow> string" where
  "formatValue val =
     (case val of
        Scalar vString \<Rightarrow>
          (let vString = [dquote] @ vString @ [dquote] in
           if strings_Contains vString [newline]
           then strings_Replace vString [newline] [backslash, CHR ''n''] (- 1)
           else vString)
      | StringList valList \<Rightarrow>
          [CHR ''['', dquote] @ strings_Join valList [dquote, CHR '','', dquote]
            @ [dquote, CHR '']'']
      | Other text \<Rightarrow> text)"

definition formatVar :: "string \<Rightarrow> string \<times> input \<Rightarrow> string" where
  "formatVar formattedVars entry =
     (case entry of (name, val) \<Rightarrow> formattedVars @ [newline] @ name @ ''='' @ formatValue val)"

definition formatVars :: "(string \<times> input) list \<Rightarrow> string" where
  "formatVars inputs = foldl formatVar [] inputs"

section \<open>The executor and its collaborators\<close>

text \<open>
  The Process Runner (\<^verbatim>\<open>terraformCmd\<close>) has two methods; a call of either is a value
  of \<open>call\<close>. The writer is \<^verbatim>\<open>os.Stdout\<close> or a fresh \<^verbatim>\<open>bytes.Buffer\<close>.
\<close>

datatype writer = os_Stdout | buffer

datatype call =
    Run writer string "string list" bool
  | RunWithEnv writer string "string list" "string list" bool

fun call_writer :: "call \<Rightarrow> writer" where
  "call_writer (Run stdout workingDirectory args dbg) = stdout"
| "call_writer (RunWithEnv stdout workingDirectory args envs dbg) = stdout"

fun call_args :: "call \<Rightarrow> string list" where
  "call_args (Run stdout workingDirectory args dbg) = args"
| "call_args (RunWithEnv stdout workingDirectory args envs dbg) = args"

fun call_debug :: "call \<Rightarrow> bool" where
  "call_debug (Run stdout workingDirectory args dbg) = dbg"
| "call_debug (RunWithEnv stdout workingDirectory args envs dbg) = dbg"

text \<open>
  The subprocess, the State Store and the file system live outside the program. \<open>'w\<close>
  is the state of that outside world: a run of the engine takes one world to the next
  and yields the text it wrote and its error, and the State Store and the file system
  are read in the world of the moment.
\<close>

type_synonym 'w terraformCmd = "'w \<Rightarrow> call \<Rightarrow> 'w \<times> string \<times> error option"

record 'w stateStore =
  GetTerraformDir :: "'w \<Rightarrow> error + string"
  GetVarsDir :: "'w \<Rightarrow> error + string"

record 'w fs =
  ReadDir :: "'w \<Rightarrow> string \<Rightarrow> error + string list"
  Stat :: "'w \<Rightarrow> string \<Rightarrow> error option"

text \<open>
  \<^verbatim>\<open>filepath.Join\<close> (of two elements) and \<^verbatim>\<open>filepath.Rel\<close> belong to Go's standard
  library, and so does \<^verbatim>\<open>json.Unmarshal\<close>; the executor is verified for any functions
  in their place, which it carries beside the four fields of the Go struct.
\<close>

record filepath =
  Join :: "string \<Rightarrow> string \<Rightarrow> string"
  Rel :: "string \<Rightarrow> string \<Rightarrow> error + string"

datatype json =
    JNull | JBool bool | JNumber string | JString string
  | JArray "json list" | JObject "(string \<times> json) list"

record tfOutput =
  Sensitive :: bool
  Type :: string
  Value :: json

record 'w Executor =
  cmd :: "'w terraformCmd"
  stateStore :: "'w stateStore"
  fs :: "'w fs"
  debug :: bool
  filepath :: filepath
  json_Unmarshal :: "string \<Rightarrow> error + (string \<rightharpoonup> tfOutput)"

text \<open>
  A method runs in a state: the world, and the calls the Process Runner has received
  so far, oldest first. It returns the state it leaves and its Go result. \<^verbatim>\<open>Setup\<close>,
  which only writes files, is left out; its one computation is \<open>formatVars\<close>.
\<close>

type_synonym 'w state = "'w \<times> call list"

definition cmd_call :: "'w Executor \<Rightarrow> 'w state \<Rightarrow> call \<Rightarrow> 'w state \<times> string \<times> error option" where
  "cmd_call e s c =
     (case cmd e (fst s) c of (w', out, err) \<Rightarrow> ((w', snd s @ [c]), out, err))"

text \<open>The loop of \<^verbatim>\<open>runTFCommandWithEnvs\<close> over the entries of the Vars Directory.\<close>

fun varFiles :: "filepath \<Rightarrow> string \<Rightarrow> string \<Rightarrow> string list \<Rightarrow> string list \<Rightarrow> error + string list" where
  "varFiles fp terraformDir varsDir [] args = Inr args"
| "varFiles fp terraformDir varsDir (file # files) args =
     (if strings_HasSuffix file ''.tfvars''
      then (case Rel fp terraformDir (Join fp varsDir file) of
              Inl err \<Rightarrow> Inl (fmt_Errorf ''Get relative terraform vars path: '' err)
            | Inr relativeFilePath \<Rightarrow>
                varFiles fp terraformDir varsDir files (args @ [''-var-file'', relativeFilePath]))
      else varFiles fp terraformDir varsDir files args)"

definition runTFCommandWithEnvs ::
  "'w Executor \<Rightarrow> 'w state \<Rightarrow> string list \<Rightarrow> string list \<Rightarrow> 'w state \<times> (error + unit)" where
  "runTFCommandWithEnvs e s args envs =
     (case GetVarsDir (stateStore e) (fst s) of
        Inl err \<Rightarrow> (s, Inl err)
      | Inr varsDir \<Rightarrow>
     (let tfStatePath = Join (filepath e) varsDir ''terraform.tfstate'' in
      case GetTerraformDir (stateStore e) (fst s) of
        Inl err \<Rightarrow> (s, Inl err)
      | Inr terraformDir \<Rightarrow>
     (case Rel (filepath e) terraformDir tfStatePath of
        Inl err \<Rightarrow> (s, Inl (fmt_Errorf ''Get relative terraform state path: '' err))
      | Inr relativeStatePath \<Rightarrow>
     (let args = args @ [''-state'', relativeStatePath] in
      case ReadDir (fs e) (fst s) varsDir of
        Inl err \<Rightarrow> (s, Inl (fmt_Errorf ''Read contents of vars directory: '' err))
      | Inr varsFiles \<Rightarrow>
     (case varFiles (filepath e) terraformDir varsDir varsFiles args of
        Inl err \<Rightarrow> (s, Inl err)
      | Inr args \<Rightarrow>
     (case cmd_call e s (RunWithEnv os_Stdout terraformDir args envs (debug e)) of
        (s', out, Some err) \<Rightarrow> (s', Inl (if debug e then err else Error redactedError))
      | (s', out, None) \<Rightarrow> (s', Inr ())))))))"

definition runTFCommand :: "'w Executor \<Rightarrow> 'w state \<Rightarrow> string list \<Rightarrow> 'w state \<times> (error + unit)" where
  "runTFCommand e s args = runTFCommandWithEnvs e s args []"

definition Init :: "'w Executor \<Rightarrow> 'w state \<Rightarrow> 'w state \<times> (error + unit)" where
  "Init e s =
     (case GetTerraformDir (stateStore e) (fst s) of
        Inl err \<Rightarrow> (s, Inl err)
      | Inr terraformDir \<Rightarrow>
     (case cmd_call e s (Run os_Stdout terraformDir [''init''] (debug e)) of
        (s', out, Some err) \<Rightarrow> (s', Inl (fmt_Errorf ''Run terraform init: '' err))
      | (s', out, None) \<Rightarrow> (s', Inr ())))"

text \<open>
  The credentials are a \<^verbatim>\<open>map[string]string\<close>, given as the list of its entries in
  the order the \<^verbatim>\<open>range\<close> loop visits them.
\<close>

fun credentialArgs :: "(string \<times> string) list \<Rightarrow> string list \<Rightarrow> string list" where
  "credentialArgs [] args = args"
| "credentialArgs ((key, v) # credentials) args =
     credentialArgs credentials (args @ [''-var'', key @ ''='' @ v])"

definition Apply :: "'w Executor \<Rightarrow> 'w state \<Rightarrow> (string \<times> string) list \<Rightarrow> 'w state \<times> (error + unit)" where
  "Apply e s credentials =
     runTFCommand e s (credentialArgs credentials [''apply'', ''--auto-approve''])"

definition Destroy :: "'w Executor \<Rightarrow> 'w state \<Rightarrow> (string \<times> string) list \<Rightarrow> 'w state \<times> (error + unit)" where
  "Destroy e s credentials =
     runTFCommandWithEnvs e s (credentialArgs credentials [''destroy'', ''-force''])
       [''TF_WARN_OUTPUT_ERRORS=1'']"

section \<open>The version pattern\<close>

text \<open>
  \<^verbatim>\<open>Version\<close> compiles the pattern \<^verbatim>\<open>\d+.\d+.\d+\<close>: three runs of ASCII digits with
  an unescaped \<^verbatim>\<open>.\<close> between them, which in Go's \<^verbatim>\<open>regexp\<close> syntax is any character
  but the newline. A pattern of this kind is a sequence of items, each one character
  of a class or a greedy non-empty run of them. \<^verbatim>\<open>FindString\<close> returns the leftmost
  match, and among the matches at that place the one a backtracking search finds first
  (longer runs before shorter ones); it returns the empty string when nothing matches.
  One character here is one byte: on ASCII text that is Go's reading, while on other
  text Go's \<^verbatim>\<open>.\<close> takes a whole UTF-8 code point, which this definition does not follow.
\<close>

datatype charclass = Digit | AnyCharNotNL

datatype item = One charclass | OneOrMore charclass

fun in_class :: "charclass \<Rightarrow> char \<Rightarrow> bool" where
  "in_class Digit c = (c \<in> set ''0123456789'')"
| "in_class AnyCharNotNL c = (c \<noteq> newline)"

definition versionRegex :: "item list" where
  "versionRegex = [OneOrMore Digit, One AnyCharNotNL, OneOrMore Digit, One AnyCharNotNL, OneOrMore Digit]"

text \<open>The texts left over after one item, in the order the search tries them.\<close>

fun item_rests :: "item \<Rightarrow> string \<Rightarrow> string list" where
  "item_rests (One k) [] = []"
| "item_rests (One k) (c # cs) = (if in_class k c then [cs] else [])"
| "item_rests (OneOrMore k) s =
     map (\<lambda>i. drop i s) (rev [1 ..< Suc (length (takeWhile (in_class k) s))])"

fun regex_rests :: "item list \<Rightarrow> string \<Rightarrow> string list" where
  "regex_rests [] s = [s]"
| "regex_rests (r # rs) s = concat (map (regex_rests rs) (item_rests r s))"

definition match_at_start :: "item list \<Rightarrow> string \<Rightarrow> string option" where
  "match_at_start re s =
     (case regex_rests re s of
        [] \<Rightarrow> None
      | rest # others \<Rightarrow> Some (take (length s - length rest) s))"

fun regexp_FindString :: "item list \<Rightarrow> string \<Rightarrow> string" where
  "regexp_FindString re [] = (case match_at_start re [] of None \<Rightarrow> [] | Some m \<Rightarrow> m)"
| "regexp_FindString re (c # cs) =
     (case match_at_start re (c # cs) of None \<Rightarrow> regexp_FindString re cs | Some m \<Rightarrow> m)"

section \<open>Version, Output, Outputs, IsPaved\<close>

definition Version :: "'w Executor \<Rightarrow> 'w state \<Rightarrow> 'w state \<times> (error + string)" where
  "Version e s =
     (case cmd_call e s (Run buffer ''/tmp'' [''version''] True) of
        (s', versionOutput, Some err) \<Rightarrow> (s', Inl err)
      | (s', versionOutput, None) \<Rightarrow>
     (let version = regexp_FindString versionRegex versionOutput in
      if version = [] then (s', Inl (errors_New ''Terraform version could not be parsed''))
      else (s', Inr version)))"

definition Output :: "'w Executor \<Rightarrow> 'w state \<Rightarrow> string \<Rightarrow> 'w state \<times> (error + string)" where
  "Output e s outputName =
     (case GetTerraformDir (stateStore e) (fst s) of
        Inl err \<Rightarrow> (s, Inl err)
      | Inr terraformDir \<Rightarrow>
     (case GetVarsDir (stateStore e) (fst s) of
        Inl err \<Rightarrow> (s, Inl err)
      | Inr varsDir \<Rightarrow>
     (case cmd_call e s (Run os_Stdout terraformDir [''init''] (debug e)) of
        (s1, out, Some err) \<Rightarrow> (s1, Inl (fmt_Errorf ''Run terraform init in terraform dir: '' err))
      | (s1, out, None) \<Rightarrow>
     (let args = [''output'', outputName];
          args = (if Stat (fs e) (fst s1) (Join (filepath e) varsDir ''terraform.tfstate'') = None
                  then args @ [''-state'', Join (filepath e) varsDir ''terraform.tfstate'']
                  else args)
      in case cmd_call e s1 (Run buffer terraformDir args True) of
        (s2, captured, Some err) \<Rightarrow> (s2, Inl (fmt_Errorf ''Run terraform output -state: '' err))
      | (s2, captured, None) \<Rightarrow> (s2, Inr (strings_TrimSuffix captured [newline]))))))"

definition Outputs :: "'w Executor \<Rightarrow> 'w state \<Rightarrow> 'w state \<times> (error + (string \<rightharpoonup> json))" where
  "Outputs e s =
     (case GetTerraformDir (stateStore e) (fst s) of
        Inl err \<Rightarrow> (s, Inl err)
      | Inr terraformDir \<Rightarrow>
     (case GetVarsDir (stateStore e) (fst s) of
        Inl err \<Rightarrow> (s, Inl err)
      | Inr varsDir \<Rightarrow>
     (case cmd_call e s (Run os_Stdout terraformDir [''init''] False) of
        (s1, out, Some err) \<Rightarrow> (s1, Inl (fmt_Errorf ''Run terraform init in terraform dir: '' err))
      | (s1, out, None) \<Rightarrow>
     (let args = [''output'', ''--json''];
          args = (if Stat (fs e) (fst s1) (Join (filepath e) varsDir ''terraform.tfstate'') = None
                  then args @ [''-state'', Join (filepath e) varsDir ''terraform.tfstate'']
                  else args)
      in case cmd_call e s1 (Run buffer terraformDir args True) of
        (s2, captured, Some err) \<Rightarrow>
          (s2, Inl (fmt_Errorf ''Run terraform output --json in vars dir: '' err))
      | (s2, captured, None) \<Rightarrow>
     (case json_Unmarshal e captured of
        Inl err \<Rightarrow> (s2, Inl (fmt_Errorf ''Unmarshal terraform output: '' err))
      | Inr tfOutputs \<Rightarrow> (s2, Inr (\<lambda>tfKey. map_option Value (tfOutputs tfKey))))))))"

definition IsPaved :: "'w Executor \<Rightarrow> 'w state \<Rightarrow> 'w state \<times> (error + bool)" where
  "IsPaved e s =
     (case GetTerraformDir (stateStore e) (fst s) of
        Inl err \<Rightarrow> (s, Inl err)
      | Inr terraformDir \<Rightarrow>
     (case cmd_call e s (Run os_Stdout terraformDir [''init''] False) of
        (s1, out, Some err) \<Rightarrow> (s1, Inl (fmt_Errorf ''Run terraform init in terraform dir: '' err))
      | (s1, out, None) \<Rightarrow>
     (case GetVarsDir (stateStore e) (fst s1) of
        Inl err \<Rightarrow> (s1, Inl err)
      | Inr varsDir \<Rightarrow>
     (let args = [''show''];
          args = (if Stat (fs e) (fst s1) (Join (filepath e) varsDir ''terraform.tfstate'') = None
                  then args @ [''-state'', Join (filepath e) varsDir ''terraform.tfstate'']
                  else args)
      in case cmd_call e s1 (Run buffer terraformDir args True) of
        (s2, captured, Some err) \<Rightarrow> (s2, Inl (fmt_Errorf ''Run terraform show: '' err))
      | (s2, captured, None) \<Rightarrow>
          if captured = ''No state.'' then (s2, Inr False) else (s2, Inr True)))))"

section \<open>What the specification calls a version\<close>

text \<open>
  The specification's words for the text \<^verbatim>\<open>Version\<close> looks for: digits, a literal dot,
  digits, a literal dot, digits. This definition follows the specification, not the
  code; it is compared with \<open>versionRegex\<close> below.
\<close>

definition semver_shaped :: "string \<Rightarrow> bool" where
  "semver_shaped v =
     (\<exists>a b c. a \<noteq> [] \<and> b \<noteq> [] \<and> c \<noteq> []
        \<and> list_all (in_class Digit) a \<and> list_all (in_class Digit) b \<and> list_all (in_class Digit) c
        \<and> v = a @ ''.'' @ b @ ''.'' @ c)"

section \<open>A concrete environment\<close>

text \<open>
  Go's \<^verbatim>\<open>filepath.Clean\<close>, \<^verbatim>\<open>filepath.Join\<close> and \<^verbatim>\<open>filepath.Rel\<close> on Unix paths, after
  the documentation of the standard library. Only the concrete executors of this
  section use them.
\<close>

fun split_slash :: "string \<Rightarrow> string list" where
  "split_slash [] = [[]]"
| "split_slash (c # cs) =
     (if c = CHR ''/'' then [] # split_slash cs
      else (case split_slash cs of [] \<Rightarrow> [[c]] | x # xs \<Rightarrow> (c # x) # xs))"

definition path_elements :: "string \<Rightarrow> string list" where
  "path_elements p = filter (\<lambda>x. x \<noteq> [] \<and> x \<noteq> ''.'') (split_slash p)"

definition clean_step :: "bool \<Rightarrow> string list \<Rightarrow> string \<Rightarrow> string list" where
  "clean_step rooted kept x =
     (if x = ''..''
      then (if kept \<noteq> [] \<and> last kept \<noteq> ''..'' then butlast kept
            else if rooted then kept else kept @ [x])
      else kept @ [x])"

definition unix_Clean :: "string \<Rightarrow> string" where
  "unix_Clean p =
     (let rooted = (take 1 p = ''/'');
          body = strings_Join (foldl (clean_step rooted) [] (path_elements p)) ''/''
      in if rooted then ''/'' @ body else if body = [] then ''.'' else body)"

definition unix_Join :: "string \<Rightarrow> string \<Rightarrow> string" where
  "unix_Join a b =
     (if a = [] \<and> b = [] then []
      else if a = [] then unix_Clean b
      else if b = [] then unix_Clean a
      else unix_Clean (a @ ''/'' @ b))"

fun drop_common :: "string list \<Rightarrow> string list \<Rightarrow> string list \<times> string list" where
  "drop_common (x # xs) (y # ys) = (if x = y then drop_common xs ys else (x # xs, y # ys))"
| "drop_common xs ys = (xs, ys)"

definition unix_Rel :: "string \<Rightarrow> string \<Rightarrow> error + string" where
  "unix_Rel basepath targpath =
     (let base = unix_Clean basepath; targ = unix_Clean targpath in
      if targ = base then Inr ''.''
      else if (take 1 base = ''/'') \<noteq> (take 1 targ = ''/'')
        then Inl (errors_New (''Rel: can't make '' @ targpath @ '' relative to '' @ basepath))
      else (case drop_common (path_elements base) (path_elements targ) of
              (b, t) \<Rightarrow>
                if b \<noteq> [] \<and> t \<noteq> [] \<and> hd b = ''..''
                then Inl (errors_New (''Rel: can't make '' @ targpath @ '' relative to '' @ basepath))
                else Inr (strings_Join (map (\<lambda>x. ''..'') b @ t) ''/'')))"

definition unix_filepath :: filepath where
  "unix_filepath = \<lparr>Join = unix_Join, Rel = unix_Rel\<rparr>"

text \<open>
  A State Store with the Working Directory \<^verbatim>\<open>/state/terraform\<close> and the Vars Directory
  \<^verbatim>\<open>/state/vars\<close>; a world that is the list of the names in the Vars Directory; and a
  Process Runner that answers each argument list as a script says and leaves the
  world as it is.
\<close>

definition fakeStateStore :: "string list stateStore" where
  "fakeStateStore =
     \<lparr>GetTerraformDir = (\<lambda>w. Inr ''/state/terraform''), GetVarsDir = (\<lambda>w. Inr ''/state/vars'')\<rparr>"

definition fakeFs :: "string list fs" where
  "fakeFs =
     \<lparr>ReadDir = (\<lambda>w dir. if dir = ''/state/vars'' then Inr w
                          else Inl (Error (''open '' @ dir @ '': no such file or directory''))),
      Stat = (\<lambda>w path. if path \<in> set (map (unix_Join ''/state/vars'') w) then None
                        else Some (Error (''stat '' @ path @ '': no such file or directory'')))\<rparr>"

definition fakeExecutor :: "bool \<Rightarrow> (string list \<Rightarrow> string \<times> error option) \<Rightarrow> string list Executor" where
  "fakeExecutor dbg script =
     \<lparr>cmd = (\<lambda>w c. (w, script (call_args c))), stateStore = fakeStateStore, fs = fakeFs,
      debug = dbg, filepath = unix_filepath, json_Unmarshal = (\<lambda>text. Inr Map.empty)\<rparr>"

text \<open>Scripts: every run succeeds and a capturing run prints \<open>text\<close>; \<^verbatim>\<open>init\<close> succeeds
  and every other run fails; every run fails.\<close>

definition prints :: "string \<Rightarrow> string list \<Rightarrow> string \<times> error option" where
  "prints text args = (if args = [''init''] then ([], None) else (text, None))"

definition fails_after_init :: "string \<Rightarrow> string list \<Rightarrow> string \<times> error option" where
  "fails_after_init msg args = (if args = [''init''] then ([], None) else ([], Some (Error msg)))"

definition always_fails :: "string \<Rightarrow> string list \<Rightarrow> string \<times> error option" where
  "always_fails msg args = ([], Some (Error msg))"

section \<open>Lemmas about the library functions and the formatter\<close>

declare strings_Replace.simps [simp del]

lemma strings_Replace_Nil: "strings_Replace [] old new n = []"
  by (subst strings_Replace.simps) simp

lemma strings_Replace_Cons_char:
  "n < 0 \<Longrightarrow> strings_Replace (x # xs) [c] new n =
     (if x = c then new @ strings_Replace xs [c] new (n - 1) else x # strings_Replace xs [c] new n)"
  by (subst strings_Replace.simps) simp

lemma strings_Replace_char:
  "n < 0 \<Longrightarrow> strings_Replace s [c] new n = concat (map (\<lambda>x. if x = c then new else [x]) s)"
proof (induction s arbitrary: n)
  case Nil
  show ?case by (simp add: strings_Replace_Nil)
next
  case (Cons x xs)
  from Cons.prems have "n - 1 < 0" by simp
  with Cons show ?case by (simp add: strings_Replace_Cons_char)
qed

lemma strings_Contains_char: "strings_Contains s [c] = (c \<in> set s)"
  by (induction s) auto

lemma concat_map_unchanged:
  "c \<notin> set s \<Longrightarrow> concat (map (\<lambda>x. if x = c then new else [x]) s) = s"
  by (induction s) auto

lemma formatValue_Scalar:
  "formatValue (Scalar v) =
     [dquote] @ concat (map (\<lambda>c. if c = newline then [backslash, CHR ''n''] else [c]) v) @ [dquote]"
  by (simp add: formatValue_def Let_def strings_Contains_char strings_Replace_char concat_map_unchanged)

lemma foldl_formatVar:
  "foldl formatVar acc inputs =
     acc @ concat (map (\<lambda>(name, v). [newline] @ name @ ''='' @ formatValue v) inputs)"
  by (induction inputs arbitrary: acc) (auto simp: formatVar_def)

lemma formatVars_concat:
  "formatVars inputs = concat (map (\<lambda>(name, v). [newline] @ name @ ''='' @ formatValue v) inputs)"
  by (simp add: formatVars_def foldl_formatVar)

lemma formatVars_append: "formatVars (xs @ ys) = formatVars xs @ formatVars ys"
  by (simp add: formatVars_concat)

lemma newline_not_in_escaped:
  "newline \<notin> set (concat (map (\<lambda>c. if c = newline then [backslash, CHR ''n''] else [c]) v))"
  by (induction v) auto

lemma formatValue_last:
  "\<forall>t. v \<noteq> Other t \<Longrightarrow> formatValue v \<noteq> [] \<and> last (formatValue v) \<noteq> newline"
  by (cases v) (simp_all add: formatValue_Scalar, simp add: formatValue_def)

section \<open>What each method does, case by case\<close>

lemma Init_run:
  assumes "GetTerraformDir (stateStore e) w = Inr td"
    and "cmd e w (Run os_Stdout td [''init''] (debug e)) = (w1, out1, r)"
  shows "Init e (w, tr) =
    ((w1, tr @ [Run os_Stdout td [''init''] (debug e)]),
     (case r of Some err \<Rightarrow> Inl (fmt_Errorf ''Run terraform init: '' err) | None \<Rightarrow> Inr ()))"
  using assms by (simp add: Init_def cmd_call_def split: option.splits)

lemma Version_run:
  assumes "cmd e w (Run buffer ''/tmp'' [''version''] True) = (w1, out1, r)"
  shows "Version e (w, tr) =
    ((w1, tr @ [Run buffer ''/tmp'' [''version''] True]),
     (case r of
        Some err \<Rightarrow> Inl err
      | None \<Rightarrow>
          if regexp_FindString versionRegex out1 = []
          then Inl (errors_New ''Terraform version could not be parsed'')
          else Inr (regexp_FindString versionRegex out1)))"
  using assms by (simp add: Version_def cmd_call_def Let_def split: option.splits)

lemma Output_init_fails:
  assumes "GetTerraformDir (stateStore e) w = Inr td"
    and "GetVarsDir (stateStore e) w = Inr vd"
    and "cmd e w (Run os_Stdout td [''init''] (debug e)) = (w1, out1, Some err)"
  shows "Output e (w, tr) name =
    ((w1, tr @ [Run os_Stdout td [''init''] (debug e)]),
     Inl (fmt_Errorf ''Run terraform init in terraform dir: '' err))"
  using assms by (simp add: Output_def cmd_call_def)

lemma Output_run:
  assumes "GetTerraformDir (stateStore e) w = Inr td"
    and "GetVarsDir (stateStore e) w = Inr vd"
    and "cmd e w (Run os_Stdout td [''init''] (debug e)) = (w1, out1, None)"
    and "args = [''output'', name] @
           (if Stat (fs e) w1 (Join (filepath e) vd ''terraform.tfstate'') = None
            then [''-state'', Join (filepath e) vd ''terraform.tfstate''] else [])"
    and "cmd e w1 (Run buffer td args True) = (w2, out2, r)"
  shows "Output e (w, tr) name =
    ((w2, tr @ [Run os_Stdout td [''init''] (debug e), Run buffer td args True]),
     (case r of
        Some err \<Rightarrow> Inl (fmt_Errorf ''Run terraform output -state: '' err)
      | None \<Rightarrow> Inr (strings_TrimSuffix out2 [newline])))"
  using assms
  by (cases "Stat (fs e) w1 (Join (filepath e) vd ''terraform.tfstate'')")
     (simp_all add: Output_def cmd_call_def Let_def split: option.splits)

lemma Outputs_init_fails:
  assumes "GetTerraformDir (stateStore e) w = Inr td"
    and "GetVarsDir (stateStore e) w = Inr vd"
    and "cmd e w (Run os_Stdout td [''init''] False) = (w1, out1, Some err)"
  shows "Outputs e (w, tr) =
    ((w1, tr @ [Run os_Stdout td [''init''] False]),
     Inl (fmt_Errorf ''Run terraform init in terraform dir: '' err))"
  using assms by (simp add: Outputs_def cmd_call_def)

lemma Outputs_run:
  assumes "GetTerraformDir (stateStore e) w = Inr td"
    and "GetVarsDir (stateStore e) w = Inr vd"
    and "cmd e w (Run os_Stdout td [''init''] False) = (w1, out1, None)"
    and "args = [''output'', ''--json''] @
           (if Stat (fs e) w1 (Join (filepath e) vd ''terraform.tfstate'') = None
            then [''-state'', Join (filepath e) vd ''terraform.tfstate''] else [])"
    and "cmd e w1 (Run buffer td args True) = (w2, out2, r)"
  shows "Outputs e (w, tr) =
    ((w2, tr @ [Run os_Stdout td [''init''] False, Run buffer td args True]),
     (case r of
        Some err \<Rightarrow> Inl (fmt_Errorf ''Run terraform output --json in vars dir: '' err)
      | None \<Rightarrow>
          (case json_Unmarshal e out2 of
             Inl err \<Rightarrow> Inl (fmt_Errorf ''Unmarshal terraform output: '' err)
           | Inr tfOutputs \<Rightarrow> Inr (\<lambda>tfKey. map_option Value (tfOutputs tfKey)))))"
  using assms
  by (cases "Stat (fs e) w1 (Join (filepath e) vd ''terraform.tfstate'')")
     (simp_all add: Outputs_def cmd_call_def Let_def split: option.splits sum.splits)

lemma IsPaved_init_fails:
  assumes "GetTerraformDir (stateStore e) w = Inr td"
    and "cmd e w (Run os_Stdout td [''init''] False) = (w1, out1, Some err)"
  shows "IsPaved e (w, tr) =
    ((w1, tr @ [Run os_Stdout td [''init''] False]),
     Inl (fmt_Errorf ''Run terraform init in terraform dir: '' err))"
  using assms by (simp add: IsPaved_def cmd_call_def)

lemma IsPaved_run:
  assumes "GetTerraformDir (stateStore e) w = Inr td"
    and "cmd e w (Run os_Stdout td [''init''] False) = (w1, out1, None)"
    and "GetVarsDir (stateStore e) w1 = Inr vd"
    and "args = [''show''] @
           (if Stat (fs e) w1 (Join (filepath e) vd ''terraform.tfstate'') = None
            then [''-state'', Join (filepath e) vd ''terraform.tfstate''] else [])"
    and "cmd e w1 (Run buffer td args True) = (w2, out2, r)"
  shows "IsPaved e (w, tr) =
    ((w2, tr @ [Run os_Stdout td [''init''] False, Run buffer td args True]),
     (case r of
        Some err \<Rightarrow> Inl (fmt_Errorf ''Run terraform show: '' err)
      | None \<Rightarrow> Inr (out2 \<noteq> ''No state.'')))"
  using assms
  by (cases "Stat (fs e) w1 (Join (filepath e) vd ''terraform.tfstate'')")
     (simp_all add: IsPaved_def cmd_call_def Let_def split: option.splits)

lemma varFiles_all:
  assumes "\<forall>n \<in> set names. strings_HasSuffix n ''.tfvars'' \<longrightarrow> Rel fp td (Join fp vd n) = Inr (r n)"
  shows "varFiles fp td vd names args =
    Inr (args @ concat (map (\<lambda>n. [''-var-file'', r n])
                         (filter (\<lambda>n. strings_HasSuffix n ''.tfvars'') names)))"
  using assms by (induction names arbitrary: args) auto

lemma runTFCommandWithEnvs_run:
  assumes "GetVarsDir (stateStore e) w = Inr vd"
    and "GetTerraformDir (stateStore e) w = Inr td"
    and "Rel (filepath e) td (Join (filepath e) vd ''terraform.tfstate'') = Inr rs"
    and "ReadDir (fs e) w vd = Inr names"
    and "varFiles (filepath e) td vd names (args @ [''-state'', rs]) = Inr args'"
    and "cmd e w (RunWithEnv os_Stdout td args' envs (debug e)) = (w1, out1, r)"
  shows "runTFCommandWithEnvs e (w, tr) args envs =
    ((w1, tr @ [RunWithEnv os_Stdout td args' envs (debug e)]),
     (case r of
        Some err \<Rightarrow> Inl (if debug e then err else Error redactedError)
      | None \<Rightarrow> Inr ()))"
  using assms by (simp add: runTFCommandWithEnvs_def cmd_call_def Let_def split: option.splits)

section \<open>The concrete environment, evaluated\<close>

lemma unix_Join_tfstate:
  "unix_Join ''/state/vars'' ''terraform.tfstate'' = ''/state/vars/terraform.tfstate''"
  by code_simp

lemma unix_Join_a: "unix_Join ''/state/vars'' ''a.tfvars'' = ''/state/vars/a.tfvars''"
  by code_simp

lemma unix_Join_b: "unix_Join ''/state/vars'' ''b.tfvars'' = ''/state/vars/b.tfvars''"
  by code_simp

lemma unix_Join_notes: "unix_Join ''/state/vars'' ''notes.txt'' = ''/state/vars/notes.txt''"
  by code_simp

lemma unix_Rel_tfstate:
  "unix_Rel ''/state/terraform'' ''/state/vars/terraform.tfstate'' = Inr ''../vars/terraform.tfstate''"
  by code_simp

lemma unix_Rel_a:
  "unix_Rel ''/state/terraform'' ''/state/vars/a.tfvars'' = Inr ''../vars/a.tfvars''"
  by code_simp

lemma unix_Rel_b:
  "unix_Rel ''/state/terraform'' ''/state/vars/b.tfvars'' = Inr ''../vars/b.tfvars''"
  by code_simp

lemmas fake_simps =
  fakeExecutor_def fakeStateStore_def fakeFs_def unix_filepath_def prints_def
  unix_Join_tfstate unix_Join_a unix_Join_b unix_Join_notes
  unix_Rel_tfstate unix_Rel_a unix_Rel_b

section \<open>Further lemmas: the version pattern, trimming, the calls of each method\<close>

lemma semver_shaped_has_dot: "semver_shaped v \<Longrightarrow> CHR ''.'' \<in> set v"
  by (auto simp: semver_shaped_def)

lemma FindString_build: "regexp_FindString versionRegex ''build 20180410'' = ''20180410''"
  by code_simp

lemma FindString_release:
  "regexp_FindString versionRegex (''Terraform v0.11.7'' @ [newline]) = ''0.11.7''"
  by code_simp

lemma FindString_spaced:
  "regexp_FindString versionRegex ''1 2 3 then 0.11.7'' = ''1 2 3''"
  by code_simp

lemma strings_TrimSuffix_newline_append: "strings_TrimSuffix (s @ [newline]) [newline] = s"
  by (simp add: strings_TrimSuffix_def strings_HasSuffix_def)

lemma strings_TrimSuffix_no_newline:
  "s = [] \<or> last s \<noteq> newline \<Longrightarrow> strings_TrimSuffix s [newline] = s"
  by (cases s rule: rev_cases) (auto simp: strings_TrimSuffix_def strings_HasSuffix_def)

lemma Outputs_calls:
  "\<exists>td args. snd (fst (Outputs e (w, []))) = []
       \<or> snd (fst (Outputs e (w, []))) = [Run os_Stdout td [''init''] False]
       \<or> snd (fst (Outputs e (w, []))) =
            [Run os_Stdout td [''init''] False, Run buffer td args True]"
proof (cases "GetTerraformDir (stateStore e) w")
  case (Inl err)
  then show ?thesis by (simp add: Outputs_def)
next
  case td: (Inr td)
  show ?thesis
  proof (cases "GetVarsDir (stateStore e) w")
    case (Inl err)
    with td show ?thesis by (simp add: Outputs_def)
  next
    case vd: (Inr vd)
    obtain w1 out1 r1 where i: "cmd e w (Run os_Stdout td [''init''] False) = (w1, out1, r1)"
      by (cases "cmd e w (Run os_Stdout td [''init''] False)") auto
    show ?thesis
    proof (cases r1)
      case (Some err)
      with i have "cmd e w (Run os_Stdout td [''init''] False) = (w1, out1, Some err)" by simp
      from Outputs_init_fails [OF td vd this, of "[]"] show ?thesis by simp
    next
      case None
      with i have i': "cmd e w (Run os_Stdout td [''init''] False) = (w1, out1, None)" by simp
      let ?args = "[''output'', ''--json''] @
           (if Stat (fs e) w1 (Join (filepath e) vd ''terraform.tfstate'') = None
            then [''-state'', Join (filepath e) vd ''terraform.tfstate''] else [])"
      obtain w2 out2 r2 where c: "cmd e w1 (Run buffer td ?args True) = (w2, out2, r2)"
        by (cases "cmd e w1 (Run buffer td ?args True)") auto
      from Outputs_run [OF td vd i' refl c, of "[]"] show ?thesis by simp
    qed
  qed
qed

lemma Output_calls:
  "\<exists>td args. snd (fst (Output e (w, []) name)) = []
       \<or> snd (fst (Output e (w, []) name)) = [Run os_Stdout td [''init''] (debug e)]
       \<or> snd (fst (Output e (w, []) name)) =
            [Run os_Stdout td [''init''] (debug e), Run buffer td args True]"
proof (cases "GetTerraformDir (stateStore e) w")
  case (Inl err)
  then show ?thesis by (simp add: Output_def)
next
  case td: (Inr td)
  show ?thesis
  proof (cases "GetVarsDir (stateStore e) w")
    case (Inl err)
    with td show ?thesis by (simp add: Output_def)
  next
    case vd: (Inr vd)
    obtain w1 out1 r1 where i: "cmd e w (Run os_Stdout td [''init''] (debug e)) = (w1, out1, r1)"
      by (cases "cmd e w (Run os_Stdout td [''init''] (debug e))") auto
    show ?thesis
    proof (cases r1)
      case (Some err)
      with i have "cmd e w (Run os_Stdout td [''init''] (debug e)) = (w1, out1, Some err)" by simp
      from Output_init_fails [OF td vd this, of "[]" name] show ?thesis by simp
    next
      case None
      with i have i': "cmd e w (Run os_Stdout td [''init''] (debug e)) = (w1, out1, None)" by simp
      let ?args = "[''output'', name] @
           (if Stat (fs e) w1 (Join (filepath e) vd ''terraform.tfstate'') = None
            then [''-state'', Join (filepath e) vd ''terraform.tfstate''] else [])"
      obtain w2 out2 r2 where c: "cmd e w1 (Run buffer td ?args True) = (w2, out2, r2)"
        by (cases "cmd e w1 (Run buffer td ?args True)") auto
      from Output_run [OF td vd i' refl c, of "[]"] show ?thesis by simp
    qed
  qed
qed

lemma IsPaved_calls:
  "\<exists>td args. snd (fst (IsPaved e (w, []))) = []
       \<or> snd (fst (IsPaved e (w, []))) = [Run os_Stdout td [''init''] False]
       \<or> snd (fst (IsPaved e (w, []))) =
            [Run os_Stdout td [''init''] False, Run buffer td args True]"
proof (cases "GetTerraformDir (stateStore e) w")
  case (Inl err)
  then show ?thesis by (simp add: IsPaved_def)
next
  case td: (Inr td)
  obtain w1 out1 r1 where i: "cmd e w (Run os_Stdout td [''init''] False) = (w1, out1, r1)"
    by (cases "cmd e w (Run os_Stdout td [''init''] False)") auto
  show ?thesis
  proof (cases r1)
    case (Some err)
    with i have "cmd e w (Run os_Stdout td [''init''] False) = (w1, out1, Some err)" by simp
    from IsPaved_init_fails [OF td this, of "[]"] show ?thesis by simp
  next
    case None
    with i have i': "cmd e w (Run os_Stdout td [''init''] False) = (w1, out1, None)" by simp
    show ?thesis
    proof (cases "GetVarsDir (stateStore e) w1")
      case (Inl err)
      with td i' have "snd (fst (IsPaved e (w, []))) = [Run os_Stdout td [''init''] False]"
        by (simp add: IsPaved_def cmd_call_def)
      then show ?thesis by simp
    next
      case vd: (Inr vd)
      let ?args = "[''show''] @
           (if Stat (fs e) w1 (Join (filepath e) vd ''terraform.tfstate'') = None
            then [''-state'', Join (filepath e) vd ''terraform.tfstate''] else [])"
      obtain w2 out2 r2 where c: "cmd e w1 (Run buffer td ?args True) = (w2, out2, r2)"
        by (cases "cmd e w1 (Run buffer td ?args True)") auto
      from IsPaved_run [OF td i' vd refl c, of "[]"] show ?thesis by simp
    qed
  qed
qed

lemma Outputs_first_call:
  assumes "GetTerraformDir (stateStore e) w = Inr td" and "GetVarsDir (stateStore e) w = Inr vd"
  shows "take 1 (snd (fst (Outputs e (w, [])))) = [Run os_Stdout td [''init''] False]"
proof -
  obtain w1 out1 r1 where i: "cmd e w (Run os_Stdout td [''init''] False) = (w1, out1, r1)"
    by (cases "cmd e w (Run os_Stdout td [''init''] False)") auto
  show ?thesis
  proof (cases r1)
    case (Some err)
    with i have "cmd e w (Run os_Stdout td [''init''] False) = (w1, out1, Some err)" by simp
    from Outputs_init_fails [OF assms this, of "[]"] show ?thesis by simp
  next
    case None
    with i have i': "cmd e w (Run os_Stdout td [''init''] False) = (w1, out1, None)" by simp
    let ?args = "[''output'', ''--json''] @
         (if Stat (fs e) w1 (Join (filepath e) vd ''terraform.tfstate'') = None
          then [''-state'', Join (filepath e) vd ''terraform.tfstate''] else [])"
    obtain w2 out2 r2 where c: "cmd e w1 (Run buffer td ?args True) = (w2, out2, r2)"
      by (cases "cmd e w1 (Run buffer td ?args True)") auto
    from Outputs_run [OF assms i' refl c, of "[]"] show ?thesis by simp
  qed
qed

lemma Output_first_call:
  assumes "GetTerraformDir (stateStore e) w = Inr td" and "GetVarsDir (stateStore e) w = Inr vd"
  shows "take 1 (snd (fst (Output e (w, []) name))) = [Run os_Stdout td [''init''] (debug e)]"
proof -
  obtain w1 out1 r1 where i: "cmd e w (Run os_Stdout td [''init''] (debug e)) = (w1, out1, r1)"
    by (cases "cmd e w (Run os_Stdout td [''init''] (debug e))") auto
  show ?thesis
  proof (cases r1)
    case (Some err)
    with i have "cmd e w (Run os_Stdout td [''init''] (debug e)) = (w1, out1, Some err)" by simp
    from Output_init_fails [OF assms this, of "[]" name] show ?thesis by simp
  next
    case None
    with i have i': "cmd e w (Run os_Stdout td [''init''] (debug e)) = (w1, out1, None)" by simp
    let ?args = "[''output'', name] @
         (if Stat (fs e) w1 (Join (filepath e) vd ''terraform.tfstate'') = None
          then [''-state'', Join (filepath e) vd ''terraform.tfstate''] else [])"
    obtain w2 out2 r2 where c: "cmd e w1 (Run buffer td ?args True) = (w2, out2, r2)"
      by (cases "cmd e w1 (Run buffer td ?args True)") auto
    from Output_run [OF assms i' refl c, of "[]"] show ?thesis by simp
  qed
qed

lemma IsPaved_first_call:
  assumes "GetTerraformDir (stateStore e) w = Inr td"
  shows "take 1 (snd (fst (IsPaved e (w, [])))) = [Run os_Stdout td [''init''] False]"
proof -
  obtain w1 out1 r1 where i: "cmd e w (Run os_Stdout td [''init''] False) = (w1, out1, r1)"
    by (cases "cmd e w (Run os_Stdout td [''init''] False)") auto
  show ?thesis
  proof (cases r1)
    case (Some err)
    with i have "cmd e w (Run os_Stdout td [''init''] False) = (w1, out1, Some err)" by simp
    from IsPaved_init_fails [OF assms this, of "[]"] show ?thesis by simp
  next
    case None
    with i have i': "cmd e w (Run os_Stdout td [''init''] False) = (w1, out1, None)" by simp
    show ?thesis
    proof (cases "GetVarsDir (stateStore e) w1")
      case (Inl err)
      with assms i' show ?thesis by (simp add: IsPaved_def cmd_call_def)
    next
      case vd: (Inr vd)
      let ?args = "[''show''] @
           (if Stat (fs e) w1 (Join (filepath e) vd ''terraform.tfstate'') = None
            then [''-state'', Join (filepath e) vd ''terraform.tfstate''] else [])"
      obtain w2 out2 r2 where c: "cmd e w1 (Run buffer td ?args True) = (w2, out2, r2)"
        by (cases "cmd e w1 (Run buffer td ?args True)") auto
      from IsPaved_run [OF assms i' vd refl c, of "[]"] show ?thesis by simp
    qed
  qed
qed

lemma Version_calls: "snd (fst (Version e (w, []))) = [Run buffer ''/tmp'' [''version''] True]"
proof -
  obtain w1 out1 r1 where "cmd e w (Run buffer ''/tmp'' [''version''] True) = (w1, out1, r1)"
    by (cases "cmd e w (Run buffer ''/tmp'' [''version''] True)") auto
  from Version_run [OF this, of "[]"] show ?thesis by simp
qed

section \<open>The state pointer of Output, Outputs and IsPaved\<close>

text \<open>
  Claim C1, as amended. Whenever \<^verbatim>\<open>Output\<close>, \<^verbatim>\<open>Outputs\<close> or \<^verbatim>\<open>IsPaved\<close> gets past its
  \<^verbatim>\<open>init\<close> run, the Process Runner receives exactly two calls, the \<^verbatim>\<open>init\<close> run and the
  capturing run. If \<^verbatim>\<open>Stat\<close> of \<^verbatim>\<open>terraform.tfstate\<close> in the Vars Directory fails, the
  arguments of the capturing run are the bare subcommand (\<^verbatim>\<open>output <name>\<close>,
  \<^verbatim>\<open>output --json\<close>, \<^verbatim>\<open>show\<close>) with nothing appended. If it succeeds, they are the
  subcommand followed by \<^verbatim>\<open>-state\<close> and \<^verbatim>\<open>filepath.Join(varsDir, "terraform.tfstate")\<close>:
  the path under the Vars Directory as the State Store gave it, which is not made
  relative to the Working Directory.
\<close>

theorem state_flag_joined_path:
  "(GetTerraformDir (stateStore e) w = Inr td \<and> GetVarsDir (stateStore e) w = Inr vd
      \<and> cmd e w (Run os_Stdout td [''init''] (debug e)) = (w1, out1, None)
    \<longrightarrow> snd (fst (Output e (w, []) name)) =
          [Run os_Stdout td [''init''] (debug e),
           Run buffer td
             ([''output'', name] @
              (if Stat (fs e) w1 (Join (filepath e) vd ''terraform.tfstate'') = None
               then [''-state'', Join (filepath e) vd ''terraform.tfstate''] else []))
             True])
   \<and> (GetTerraformDir (stateStore e) w = Inr td \<and> GetVarsDir (stateStore e) w = Inr vd
      \<and> cmd e w (Run os_Stdout td [''init''] False) = (w2, out2, None)
    \<longrightarrow> snd (fst (Outputs e (w, []))) =
          [Run os_Stdout td [''init''] False,
           Run buffer td
             ([''output'', ''--json''] @
              (if Stat (fs e) w2 (Join (filepath e) vd ''terraform.tfstate'') = None
               then [''-state'', Join (filepath e) vd ''terraform.tfstate''] else []))
             True])
   \<and> (GetTerraformDir (stateStore e) w = Inr td
      \<and> cmd e w (Run os_Stdout td [''init''] False) = (w2, out2, None)
      \<and> GetVarsDir (stateStore e) w2 = Inr vd'
    \<longrightarrow> snd (fst (IsPaved e (w, []))) =
          [Run os_Stdout td [''init''] False,
           Run buffer td
             ([''show''] @
              (if Stat (fs e) w2 (Join (filepath e) vd' ''terraform.tfstate'') = None
               then [''-state'', Join (filepath e) vd' ''terraform.tfstate''] else []))
             True])"
proof (intro conjI impI)
  let ?p = "Join (filepath e) vd ''terraform.tfstate''"
  assume a: "GetTerraformDir (stateStore e) w = Inr td \<and> GetVarsDir (stateStore e) w = Inr vd
      \<and> cmd e w (Run os_Stdout td [''init''] (debug e)) = (w1, out1, None)"
  let ?args = "[''output'', name] @ (if Stat (fs e) w1 ?p = None then [''-state'', ?p] else [])"
  obtain w3 out3 r where "cmd e w1 (Run buffer td ?args True) = (w3, out3, r)"
    by (cases "cmd e w1 (Run buffer td ?args True)") auto
  with a show "snd (fst (Output e (w, []) name)) =
      [Run os_Stdout td [''init''] (debug e), Run buffer td ?args True]"
    by (simp add: Output_run [where args = ?args])
next
  let ?p = "Join (filepath e) vd ''terraform.tfstate''"
  assume a: "GetTerraformDir (stateStore e) w = Inr td \<and> GetVarsDir (stateStore e) w = Inr vd
      \<and> cmd e w (Run os_Stdout td [''init''] False) = (w2, out2, None)"
  let ?args = "[''output'', ''--json''] @ (if Stat (fs e) w2 ?p = None then [''-state'', ?p] else [])"
  obtain w3 out3 r where "cmd e w2 (Run buffer td ?args True) = (w3, out3, r)"
    by (cases "cmd e w2 (Run buffer td ?args True)") auto
  with a show "snd (fst (Outputs e (w, []))) =
      [Run os_Stdout td [''init''] False, Run buffer td ?args True]"
    by (simp add: Outputs_run [where args = ?args])
next
  let ?p = "Join (filepath e) vd' ''terraform.tfstate''"
  assume a: "GetTerraformDir (stateStore e) w = Inr td
      \<and> cmd e w (Run os_Stdout td [''init''] False) = (w2, out2, None)
      \<and> GetVarsDir (stateStore e) w2 = Inr vd'"
  let ?args = "[''show''] @ (if Stat (fs e) w2 ?p = None then [''-state'', ?p] else [])"
  obtain w3 out3 r where "cmd e w2 (Run buffer td ?args True) = (w3, out3, r)"
    by (cases "cmd e w2 (Run buffer td ?args True)") auto
  with a show "snd (fst (IsPaved e (w, []))) =
      [Run os_Stdout td [''init''] False, Run buffer td ?args True]"
    by (simp add: IsPaved_run [where args = ?args])
qed

text \<open>The three methods on the concrete executor, with the state file present
  (\<^verbatim>\<open>Output\<close>, \<^verbatim>\<open>Outputs\<close>) and absent (\<^verbatim>\<open>IsPaved\<close>).\<close>

theorem state_flag_joined_path_witness:
  "snd (fst (Output (fakeExecutor True (prints ''bar'')) ([''terraform.tfstate''], []) ''foo'')) =
     [Run os_Stdout ''/state/terraform'' [''init''] True,
      Run buffer ''/state/terraform''
        [''output'', ''foo'', ''-state'', ''/state/vars/terraform.tfstate''] True]
   \<and> snd (fst (Outputs (fakeExecutor True (prints ''{}'')) ([''terraform.tfstate''], []))) =
     [Run os_Stdout ''/state/terraform'' [''init''] False,
      Run buffer ''/state/terraform''
        [''output'', ''--json'', ''-state'', ''/state/vars/terraform.tfstate''] True]
   \<and> snd (fst (IsPaved (fakeExecutor True (prints ''No state.'')) ([''a.tfvars''], []))) =
     [Run os_Stdout ''/state/terraform'' [''init''] False,
      Run buffer ''/state/terraform'' [''show''] True]"
  using
    state_flag_joined_path [where e = "fakeExecutor True (prints ''bar'')"
      and w = "[''terraform.tfstate'']" and ?w1.0 = "[''terraform.tfstate'']"
      and ?w2.0 = "[''terraform.tfstate'']" and td = "''/state/terraform''"
      and vd = "''/state/vars''" and vd' = "''/state/vars''" and ?out1.0 = "[]"
      and ?out2.0 = "[]" and name = "''foo''"]
    state_flag_joined_path [where e = "fakeExecutor True (prints ''{}'')"
      and w = "[''terraform.tfstate'']" and ?w1.0 = "[''terraform.tfstate'']"
      and ?w2.0 = "[''terraform.tfstate'']" and td = "''/state/terraform''"
      and vd = "''/state/vars''" and vd' = "''/state/vars''" and ?out1.0 = "[]"
      and ?out2.0 = "[]" and name = "''foo''"]
    state_flag_joined_path [where e = "fakeExecutor True (prints ''No state.'')"
      and w = "[''a.tfvars'']" and ?w1.0 = "[''a.tfvars'']"
      and ?w2.0 = "[''a.tfvars'']" and td = "''/state/terraform''"
      and vd = "''/state/vars''" and vd' = "''/state/vars''" and ?out1.0 = "[]"
      and ?out2.0 = "[]" and name = "''foo''"]
  by (simp add: fake_simps)

text \<open>
  Claim C1 as it is written fails: with the Working Directory \<^verbatim>\<open>/state/terraform\<close> and
  the state file present in the Vars Directory \<^verbatim>\<open>/state/vars\<close>, the path relative to
  the Working Directory is \<^verbatim>\<open>../vars/terraform.tfstate\<close>, and \<^verbatim>\<open>Output\<close> passes
  \<^verbatim>\<open>-state /state/vars/terraform.tfstate\<close>; the relative path is nowhere in the
  argument list.
\<close>

theorem state_flag_not_relative:
  "Stat (fs (fakeExecutor False (prints ''bar''))) [''terraform.tfstate'']
        (Join unix_filepath ''/state/vars'' ''terraform.tfstate'') = None
   \<and> Rel unix_filepath ''/state/terraform'' (Join unix_filepath ''/state/vars'' ''terraform.tfstate'')
        = Inr ''../vars/terraform.tfstate''
   \<and> snd (fst (Output (fakeExecutor False (prints ''bar'')) ([''terraform.tfstate''], []) ''foo'')) =
        [Run os_Stdout ''/state/terraform'' [''init''] False,
         Run buffer ''/state/terraform''
           [''output'', ''foo'', ''-state'', ''/state/vars/terraform.tfstate''] True]
   \<and> ''../vars/terraform.tfstate''
        \<notin> set [''output'', ''foo'', ''-state'', ''/state/vars/terraform.tfstate'']"
  by (simp add: fake_simps Output_def cmd_call_def)

section \<open>Redaction in Apply and Destroy\<close>

text \<open>
  Claim C2. Let the State Store give both directories, \<^verbatim>\<open>filepath.Rel\<close> succeed on the
  state file and on every \<^verbatim>\<open>.tfvars\<close> entry, and the Vars Directory be readable, so that
  \<^verbatim>\<open>Apply\<close> and \<^verbatim>\<open>Destroy\<close> reach the Process Runner. When the Process Runner answers
  the invocation that \<^verbatim>\<open>Apply\<close> (or \<^verbatim>\<open>Destroy\<close>) makes with the error \<open>err\<close>: with the
  debug flag true the method returns \<open>err\<close> itself, and with the debug flag false it
  returns the fixed message \<open>redactedError\<close>, in which nothing of \<open>err\<close> appears.
\<close>

theorem apply_destroy_redaction:
  assumes "GetVarsDir (stateStore e) w = Inr vd"
    and "GetTerraformDir (stateStore e) w = Inr td"
    and "Rel (filepath e) td (Join (filepath e) vd ''terraform.tfstate'') = Inr rs"
    and "ReadDir (fs e) w vd = Inr names"
    and "\<forall>n \<in> set names. strings_HasSuffix n ''.tfvars''
           \<longrightarrow> Rel (filepath e) td (Join (filepath e) vd n) = Inr (r n)"
  shows
   "(cmd e w (RunWithEnv os_Stdout td
        (credentialArgs credentials [''apply'', ''--auto-approve''] @ [''-state'', rs] @
         concat (map (\<lambda>n. [''-var-file'', r n])
                     (filter (\<lambda>n. strings_HasSuffix n ''.tfvars'') names)))
        [] (debug e)) = (w1, out1, Some err)
     \<longrightarrow> (debug e \<longrightarrow> snd (Apply e (w, []) credentials) = Inl err)
       \<and> (\<not> debug e \<longrightarrow> snd (Apply e (w, []) credentials) = Inl (Error redactedError)))
    \<and> (cmd e w (RunWithEnv os_Stdout td
        (credentialArgs credentials [''destroy'', ''-force''] @ [''-state'', rs] @
         concat (map (\<lambda>n. [''-var-file'', r n])
                     (filter (\<lambda>n. strings_HasSuffix n ''.tfvars'') names)))
        [''TF_WARN_OUTPUT_ERRORS=1''] (debug e)) = (w2, out2, Some err')
     \<longrightarrow> (debug e \<longrightarrow> snd (Destroy e (w, []) credentials) = Inl err')
       \<and> (\<not> debug e \<longrightarrow> snd (Destroy e (w, []) credentials) = Inl (Error redactedError)))"
proof (intro conjI impI)
  let ?tail = "concat (map (\<lambda>n. [''-var-file'', r n])
                     (filter (\<lambda>n. strings_HasSuffix n ''.tfvars'') names))"
  let ?a = "credentialArgs credentials [''apply'', ''--auto-approve'']"
  let ?d = "credentialArgs credentials [''destroy'', ''-force'']"
  have va: "varFiles (filepath e) td vd names (?a @ [''-state'', rs]) = Inr ((?a @ [''-state'', rs]) @ ?tail)"
    using assms(5) by (rule varFiles_all)
  have vd: "varFiles (filepath e) td vd names (?d @ [''-state'', rs]) = Inr ((?d @ [''-state'', rs]) @ ?tail)"
    using assms(5) by (rule varFiles_all)
  {
    assume c: "cmd e w (RunWithEnv os_Stdout td (?a @ [''-state'', rs] @ ?tail) [] (debug e))
                 = (w1, out1, Some err)"
    then have c': "cmd e w (RunWithEnv os_Stdout td ((?a @ [''-state'', rs]) @ ?tail) [] (debug e))
                 = (w1, out1, Some err)" by simp
    have res: "snd (Apply e (w, []) credentials) = Inl (if debug e then err else Error redactedError)"
      using runTFCommandWithEnvs_run [OF assms(1-4) va c', of "[]"]
      by (simp add: Apply_def runTFCommand_def)
    { assume "debug e" with res show "snd (Apply e (w, []) credentials) = Inl err" by simp }
    { assume "\<not> debug e" with res
      show "snd (Apply e (w, []) credentials) = Inl (Error redactedError)" by simp }
  }
  {
    assume c: "cmd e w (RunWithEnv os_Stdout td (?d @ [''-state'', rs] @ ?tail)
                 [''TF_WARN_OUTPUT_ERRORS=1''] (debug e)) = (w2, out2, Some err')"
    then have c': "cmd e w (RunWithEnv os_Stdout td ((?d @ [''-state'', rs]) @ ?tail)
                 [''TF_WARN_OUTPUT_ERRORS=1''] (debug e)) = (w2, out2, Some err')" by simp
    have res: "snd (Destroy e (w, []) credentials) = Inl (if debug e then err' else Error redactedError)"
      using runTFCommandWithEnvs_run [OF assms(1-4) vd c', of "[]"]
      by (simp add: Destroy_def)
    { assume "debug e" with res show "snd (Destroy e (w, []) credentials) = Inl err'" by simp }
    { assume "\<not> debug e" with res
      show "snd (Destroy e (w, []) credentials) = Inl (Error redactedError)" by simp }
  }
qed

text \<open>Both methods, with the flag off and on, on a runner that fails with a text
  that holds a secret.\<close>

theorem apply_destroy_redaction_witness:
  "snd (Apply (fakeExecutor False (fails_after_init ''password=hunter2''))
         ([''a.tfvars'', ''b.tfvars'', ''notes.txt''], []) [(''k'', ''v'')]) = Inl (Error redactedError)
   \<and> snd (Apply (fakeExecutor True (fails_after_init ''password=hunter2''))
         ([''a.tfvars'', ''b.tfvars'', ''notes.txt''], []) [(''k'', ''v'')]) = Inl (Error ''password=hunter2'')
   \<and> snd (Destroy (fakeExecutor False (fails_after_init ''password=hunter2''))
         ([''a.tfvars'', ''b.tfvars'', ''notes.txt''], []) [(''k'', ''v'')]) = Inl (Error redactedError)
   \<and> snd (Destroy (fakeExecutor True (fails_after_init ''password=hunter2''))
         ([''a.tfvars'', ''b.tfvars'', ''notes.txt''], []) [(''k'', ''v'')]) = Inl (Error ''password=hunter2'')"
  using
    apply_destroy_redaction [where e = "fakeExecutor False (fails_after_init ''password=hunter2'')"
      and w = "[''a.tfvars'', ''b.tfvars'', ''notes.txt'']" and credentials = "[(''k'', ''v'')]"
      and vd = "''/state/vars''" and td = "''/state/terraform''"
      and rs = "''../vars/terraform.tfstate''"
      and names = "[''a.tfvars'', ''b.tfvars'', ''notes.txt'']"
      and r = "\<lambda>n. ''../vars/'' @ n"
      and ?w1.0 = "[''a.tfvars'', ''b.tfvars'', ''notes.txt'']"
      and ?w2.0 = "[''a.tfvars'', ''b.tfvars'', ''notes.txt'']"
      and ?out1.0 = "[]" and ?out2.0 = "[]"
      and err = "Error ''password=hunter2''" and err' = "Error ''password=hunter2''"]
    apply_destroy_redaction [where e = "fakeExecutor True (fails_after_init ''password=hunter2'')"
      and w = "[''a.tfvars'', ''b.tfvars'', ''notes.txt'']" and credentials = "[(''k'', ''v'')]"
      and vd = "''/state/vars''" and td = "''/state/terraform''"
      and rs = "''../vars/terraform.tfstate''"
      and names = "[''a.tfvars'', ''b.tfvars'', ''notes.txt'']"
      and r = "\<lambda>n. ''../vars/'' @ n"
      and ?w1.0 = "[''a.tfvars'', ''b.tfvars'', ''notes.txt'']"
      and ?w2.0 = "[''a.tfvars'', ''b.tfvars'', ''notes.txt'']"
      and ?out1.0 = "[]" and ?out2.0 = "[]"
      and err = "Error ''password=hunter2''" and err' = "Error ''password=hunter2''"]
  by (simp add: fake_simps fails_after_init_def strings_HasSuffix_def)

section \<open>The version\<close>

text \<open>
  Claim C3 does not hold of the code. The dots of the pattern are not escaped, so the
  pattern accepts any character but a newline between the runs of digits. The captured
  text \<^verbatim>\<open>build 20180410\<close> has no substring of digits, dot, digits, dot, digits (it has
  no dot at all), and \<^verbatim>\<open>Version\<close> returns \<^verbatim>\<open>20180410\<close> where the claim promises the parse
  error; on \<^verbatim>\<open>1 2 3 then 0.11.7\<close> it returns \<^verbatim>\<open>1 2 3\<close>, which is not of that shape, where
  the claim promises \<^verbatim>\<open>0.11.7\<close>.
\<close>

theorem Version_accepts_text_without_dots:
  "snd (Version (fakeExecutor False (prints ''build 20180410'')) ([], [])) = Inr ''20180410''
   \<and> \<not> (\<exists>before v after. ''build 20180410'' = before @ v @ after \<and> semver_shaped v)
   \<and> snd (Version (fakeExecutor False (prints ''1 2 3 then 0.11.7'')) ([], [])) = Inr ''1 2 3''
   \<and> \<not> semver_shaped ''1 2 3''
   \<and> semver_shaped ''0.11.7''"
proof (intro conjI)
  show "semver_shaped ''0.11.7''"
    unfolding semver_shaped_def
    by (rule exI [of _ "''0''"], rule exI [of _ "''11''"], rule exI [of _ "''7''"]) simp
  show "snd (Version (fakeExecutor False (prints ''build 20180410'')) ([], [])) = Inr ''20180410''"
    by (simp add: Version_def cmd_call_def fakeExecutor_def prints_def FindString_build
          del: regexp_FindString.simps)
  show "snd (Version (fakeExecutor False (prints ''1 2 3 then 0.11.7'')) ([], [])) = Inr ''1 2 3''"
    by (simp add: Version_def cmd_call_def fakeExecutor_def prints_def FindString_spaced
          del: regexp_FindString.simps)
  show "\<not> semver_shaped ''1 2 3''"
    using semver_shaped_has_dot [of "''1 2 3''"] by auto
  show "\<not> (\<exists>before v after. ''build 20180410'' = before @ v @ after \<and> semver_shaped v)"
  proof
    assume "\<exists>before v after. ''build 20180410'' = before @ v @ after \<and> semver_shaped v"
    then obtain before v after where
      eq: "''build 20180410'' = before @ v @ after" and sv: "semver_shaped v" by blast
    from sv have "CHR ''.'' \<in> set v" by (rule semver_shaped_has_dot)
    then have "CHR ''.'' \<in> set (before @ v @ after)" by simp
    with eq [symmetric] show False by simp
  qed
qed

section \<open>Process Runner failures outside Apply and Destroy\<close>

text \<open>
  Claim C4, as amended. In \<^verbatim>\<open>Init\<close>, \<^verbatim>\<open>Output\<close>, \<^verbatim>\<open>Outputs\<close> and \<^verbatim>\<open>IsPaved\<close> a failure of the
  Process Runner yields the error whose text is a prefix naming the command followed
  by the text of the original error, whatever the debug flag: \<^verbatim>\<open>Run terraform init: \<close>
  in \<^verbatim>\<open>Init\<close>; \<^verbatim>\<open>Run terraform init in terraform dir: \<close> for the \<^verbatim>\<open>init\<close> run of the other
  three; \<^verbatim>\<open>Run terraform output -state: \<close>, \<^verbatim>\<open>Run terraform output --json in vars dir: \<close>
  and \<^verbatim>\<open>Run terraform show: \<close> for their capturing runs. In \<^verbatim>\<open>Version\<close> a failure of the
  Process Runner yields the original error unchanged, with no prefix.
\<close>

theorem runner_failure_errors:
  "(GetTerraformDir (stateStore e) w = Inr td
      \<and> cmd e w (Run os_Stdout td [''init''] (debug e)) = (w1, out1, Some err)
    \<longrightarrow> snd (Init e (w, [])) = Inl (Error (''Run terraform init: '' @ error_text err)))
   \<and> (cmd e w (Run buffer ''/tmp'' [''version''] True) = (w1, out1, Some err)
    \<longrightarrow> snd (Version e (w, [])) = Inl err)
   \<and> (GetTerraformDir (stateStore e) w = Inr td \<and> GetVarsDir (stateStore e) w = Inr vd
      \<and> cmd e w (Run os_Stdout td [''init''] (debug e)) = (w1, out1, Some err)
    \<longrightarrow> snd (Output e (w, []) name) =
          Inl (Error (''Run terraform init in terraform dir: '' @ error_text err)))
   \<and> (GetTerraformDir (stateStore e) w = Inr td \<and> GetVarsDir (stateStore e) w = Inr vd
      \<and> cmd e w (Run os_Stdout td [''init''] (debug e)) = (w1, out1, None)
      \<and> cmd e w1 (Run buffer td
           ([''output'', name] @
            (if Stat (fs e) w1 (Join (filepath e) vd ''terraform.tfstate'') = None
             then [''-state'', Join (filepath e) vd ''terraform.tfstate''] else []))
           True) = (w2, out2, Some err)
    \<longrightarrow> snd (Output e (w, []) name) =
          Inl (Error (''Run terraform output -state: '' @ error_text err)))
   \<and> (GetTerraformDir (stateStore e) w = Inr td \<and> GetVarsDir (stateStore e) w = Inr vd
      \<and> cmd e w (Run os_Stdout td [''init''] False) = (w1, out1, Some err)
    \<longrightarrow> snd (Outputs e (w, [])) =
          Inl (Error (''Run terraform init in terraform dir: '' @ error_text err)))
   \<and> (GetTerraformDir (stateStore e) w = Inr td \<and> GetVarsDir (stateStore e) w = Inr vd
      \<and> cmd e w (Run os_Stdout td [''init''] False) = (w1, out1, None)
      \<and> cmd e w1 (Run buffer td
           ([''output'', ''--json''] @
            (if Stat (fs e) w1 (Join (filepath e) vd ''terraform.tfstate'') = None
             then [''-state'', Join (filepath e) vd ''terraform.tfstate''] else []))
           True) = (w2, out2, Some err)
    \<longrightarrow> snd (Outputs e (w, [])) =
          Inl (Error (''Run terraform output --json in vars dir: '' @ error_text err)))
   \<and> (GetTerraformDir (stateStore e) w = Inr td
      \<and> cmd e w (Run os_Stdout td [''init''] False) = (w1, out1, Some err)
    \<longrightarrow> snd (IsPaved e (w, [])) =
          Inl (Error (''Run terraform init in terraform dir: '' @ error_text err)))
   \<and> (GetTerraformDir (stateStore e) w = Inr td
      \<and> cmd e w (Run os_Stdout td [''init''] False) = (w1, out1, None)
      \<and> GetVarsDir (stateStore e) w1 = Inr vd
      \<and> cmd e w1 (Run buffer td
           ([''show''] @
            (if Stat (fs e) w1 (Join (filepath e) vd ''terraform.tfstate'') = None
             then [''-state'', Join (filepath e) vd ''terraform.tfstate''] else []))
           True) = (w2, out2, Some err)
    \<longrightarrow> snd (IsPaved e (w, [])) = Inl (Error (''Run terraform show: '' @ error_text err)))"
proof (intro conjI impI)
  assume "GetTerraformDir (stateStore e) w = Inr td
      \<and> cmd e w (Run os_Stdout td [''init''] (debug e)) = (w1, out1, Some err)"
  then show "snd (Init e (w, [])) = Inl (Error (''Run terraform init: '' @ error_text err))"
    by (simp add: Init_run [where tr = "[]"] fmt_Errorf_def)
next
  assume "cmd e w (Run buffer ''/tmp'' [''version''] True) = (w1, out1, Some err)"
  then show "snd (Version e (w, [])) = Inl err"
    by (simp add: Version_run [where tr = "[]"])
next
  assume "GetTerraformDir (stateStore e) w = Inr td \<and> GetVarsDir (stateStore e) w = Inr vd
      \<and> cmd e w (Run os_Stdout td [''init''] (debug e)) = (w1, out1, Some err)"
  then show "snd (Output e (w, []) name) =
          Inl (Error (''Run terraform init in terraform dir: '' @ error_text err))"
    by (simp add: Output_init_fails [where tr = "[]"] fmt_Errorf_def)
next
  assume "GetTerraformDir (stateStore e) w = Inr td \<and> GetVarsDir (stateStore e) w = Inr vd
      \<and> cmd e w (Run os_Stdout td [''init''] (debug e)) = (w1, out1, None)
      \<and> cmd e w1 (Run buffer td
           ([''output'', name] @
            (if Stat (fs e) w1 (Join (filepath e) vd ''terraform.tfstate'') = None
             then [''-state'', Join (filepath e) vd ''terraform.tfstate''] else []))
           True) = (w2, out2, Some err)"
  then show "snd (Output e (w, []) name) =
          Inl (Error (''Run terraform output -state: '' @ error_text err))"
    using Output_run [of e w td vd w1 out1 _ name w2 out2 "Some err" "[]", OF _ _ _ refl]
    by (simp add: fmt_Errorf_def)
next
  assume "GetTerraformDir (stateStore e) w = Inr td \<and> GetVarsDir (stateStore e) w = Inr vd
      \<and> cmd e w (Run os_Stdout td [''init''] False) = (w1, out1, Some err)"
  then show "snd (Outputs e (w, [])) =
          Inl (Error (''Run terraform init in terraform dir: '' @ error_text err))"
    by (simp add: Outputs_init_fails [where tr = "[]"] fmt_Errorf_def)
next
  assume "GetTerraformDir (stateStore e) w = Inr td \<and> GetVarsDir (stateStore e) w = Inr vd
      \<and> cmd e w (Run os_Stdout td [''init''] False) = (w1, out1, None)
      \<and> cmd e w1 (Run buffer td
           ([''output'', ''--json''] @
            (if Stat (fs e) w1 (Join (filepath e) vd ''terraform.tfstate'') = None
             then [''-state'', Join (filepath e) vd ''terraform.tfstate''] else []))
           True) = (w2, out2, Some err)"
  then show "snd (Outputs e (w, [])) =
          Inl (Error (''Run terraform output --json in vars dir: '' @ error_text err))"
    using Outputs_run [of e w td vd w1 out1 _ w2 out2 "Some err" "[]", OF _ _ _ refl]
    by (simp add: fmt_Errorf_def)
next
  assume "GetTerraformDir (stateStore e) w = Inr td
      \<and> cmd e w (Run os_Stdout td [''init''] False) = (w1, out1, Some err)"
  then show "snd (IsPaved e (w, [])) =
          Inl (Error (''Run terraform init in terraform dir: '' @ error_text err))"
    by (simp add: IsPaved_init_fails [where tr = "[]"] fmt_Errorf_def)
next
  assume "GetTerraformDir (stateStore e) w = Inr td
      \<and> cmd e w (Run os_Stdout td [''init''] False) = (w1, out1, None)
      \<and> GetVarsDir (stateStore e) w1 = Inr vd
      \<and> cmd e w1 (Run buffer td
           ([''show''] @
            (if Stat (fs e) w1 (Join (filepath e) vd ''terraform.tfstate'') = None
             then [''-state'', Join (filepath e) vd ''terraform.tfstate''] else []))
           True) = (w2, out2, Some err)"
  then show "snd (IsPaved e (w, [])) = Inl (Error (''Run terraform show: '' @ error_text err))"
    using IsPaved_run [of e w td w1 out1 vd _ w2 out2 "Some err" "[]", OF _ _ _ refl]
    by (simp add: fmt_Errorf_def)
qed

text \<open>Every failing run of the claim on the concrete executor, the flag on and off.\<close>

theorem runner_failure_errors_witness:
  "snd (Init (fakeExecutor True (always_fails ''boom'')) ([], []))
     = Inl (Error ''Run terraform init: boom'')
   \<and> snd (Init (fakeExecutor False (always_fails ''boom'')) ([], []))
     = Inl (Error ''Run terraform init: boom'')
   \<and> snd (Version (fakeExecutor True (always_fails ''boom'')) ([], [])) = Inl (Error ''boom'')
   \<and> snd (Output (fakeExecutor True (always_fails ''boom'')) ([], []) ''foo'')
     = Inl (Error ''Run terraform init in terraform dir: boom'')
   \<and> snd (Outputs (fakeExecutor True (always_fails ''boom'')) ([], []))
     = Inl (Error ''Run terraform init in terraform dir: boom'')
   \<and> snd (IsPaved (fakeExecutor True (always_fails ''boom'')) ([], []))
     = Inl (Error ''Run terraform init in terraform dir: boom'')
   \<and> snd (Output (fakeExecutor False (fails_after_init ''boom'')) ([], []) ''foo'')
     = Inl (Error ''Run terraform output -state: boom'')
   \<and> snd (Output (fakeExecutor True (fails_after_init ''boom'')) ([], []) ''foo'')
     = Inl (Error ''Run terraform output -state: boom'')
   \<and> snd (Outputs (fakeExecutor False (fails_after_init ''boom'')) ([], []))
     = Inl (Error ''Run terraform output --json in vars dir: boom'')
   \<and> snd (IsPaved (fakeExecutor False (fails_after_init ''boom'')) ([], []))
     = Inl (Error ''Run terraform show: boom'')"
  using
    runner_failure_errors [where e = "fakeExecutor True (always_fails ''boom'')" and w = "[]"
      and td = "''/state/terraform''" and vd = "''/state/vars''" and ?w1.0 = "[]" and ?w2.0 = "[]"
      and ?out1.0 = "[]" and ?out2.0 = "[]" and err = "Error ''boom''" and name = "''foo''"]
    runner_failure_errors [where e = "fakeExecutor False (always_fails ''boom'')" and w = "[]"
      and td = "''/state/terraform''" and vd = "''/state/vars''" and ?w1.0 = "[]" and ?w2.0 = "[]"
      and ?out1.0 = "[]" and ?out2.0 = "[]" and err = "Error ''boom''" and name = "''foo''"]
    runner_failure_errors [where e = "fakeExecutor False (fails_after_init ''boom'')" and w = "[]"
      and td = "''/state/terraform''" and vd = "''/state/vars''" and ?w1.0 = "[]" and ?w2.0 = "[]"
      and ?out1.0 = "[]" and ?out2.0 = "[]" and err = "Error ''boom''" and name = "''foo''"]
    runner_failure_errors [where e = "fakeExecutor True (fails_after_init ''boom'')" and w = "[]"
      and td = "''/state/terraform''" and vd = "''/state/vars''" and ?w1.0 = "[]" and ?w2.0 = "[]"
      and ?out1.0 = "[]" and ?out2.0 = "[]" and err = "Error ''boom''" and name = "''foo''"]
  by (simp add: fake_simps fails_after_init_def always_fails_def)

text \<open>
  Claim C4 as it is written fails for \<^verbatim>\<open>Version\<close>: when the runner fails with \<^verbatim>\<open>boom\<close>,
  \<^verbatim>\<open>Version\<close> returns the error \<^verbatim>\<open>boom\<close> for both values of the debug flag, and no
  non-empty prefix stands before it.
\<close>

theorem Version_failure_not_wrapped:
  "snd (Version (fakeExecutor False (always_fails ''boom'')) ([], [])) = Inl (Error ''boom'')
   \<and> snd (Version (fakeExecutor True (always_fails ''boom'')) ([], [])) = Inl (Error ''boom'')
   \<and> \<not> (\<exists>prefix. prefix \<noteq> []
          \<and> snd (Version (fakeExecutor False (always_fails ''boom'')) ([], []))
              = Inl (fmt_Errorf prefix (Error ''boom'')))"
  by (simp add: Version_def cmd_call_def fakeExecutor_def always_fails_def fmt_Errorf_def)

section \<open>The Variable Formatter: scalars\<close>

text \<open>
  Claim C5. In the text rendered for any mapping, the entry of a scalar string \<open>v\<close>
  named \<open>name\<close> is a newline, the name, \<^verbatim>\<open>=\<close>, and the value between double quotes, in
  which every newline character of \<open>v\<close> has become the two characters backslash and
  \<^verbatim>\<open>n\<close>; the quoted value holds no newline character. The entries before and after it
  are rendered as they would be on their own.
\<close>

theorem scalar_quoted_and_escaped:
  "formatVars (before @ [(name, Scalar v)] @ after) =
     formatVars before @ [newline] @ name @ ''='' @ [dquote]
       @ concat (map (\<lambda>c. if c = newline then [backslash, CHR ''n''] else [c]) v) @ [dquote]
       @ formatVars after
   \<and> newline \<notin> set (concat (map (\<lambda>c. if c = newline then [backslash, CHR ''n''] else [c]) v))"
  by (simp add: formatVars_append newline_not_in_escaped)
     (simp add: formatVars_concat formatValue_Scalar)

text \<open>A list entry followed by a scalar with an embedded newline.\<close>

theorem scalar_quoted_and_escaped_witness:
  "formatVars [(''zones'', StringList [''a'', ''b'']), (''key'', Scalar (''line1'' @ [newline] @ ''line2''))] =
     [newline] @ ''zones=['' @ [dquote] @ ''a'' @ [dquote] @ '','' @ [dquote] @ ''b'' @ [dquote] @ '']''
     @ [newline] @ ''key='' @ [dquote] @ ''line1'' @ [backslash] @ ''nline2'' @ [dquote]"
  using scalar_quoted_and_escaped [where before = "[(''zones'', StringList [''a'', ''b''])]"
      and name = "''key''" and v = "''line1'' @ [newline] @ ''line2''" and after = "[]"]
  by (simp add: formatVars_concat formatValue_def)

section \<open>The -var-file arguments\<close>

text \<open>
  Claim C6. When \<^verbatim>\<open>runTFCommandWithEnvs\<close> reaches the Process Runner, the argument list
  it passes is the arguments it was given, then \<^verbatim>\<open>-state\<close> and the relative path of the
  state file, then, for each entry of the Vars Directory whose name ends in
  \<^verbatim>\<open>.tfvars\<close> and in the order of the listing, one \<^verbatim>\<open>-var-file\<close> followed by that entry's
  path relative to the Working Directory; an entry with another suffix adds nothing.
\<close>

theorem var_file_arguments:
  assumes "GetVarsDir (stateStore e) w = Inr vd"
    and "GetTerraformDir (stateStore e) w = Inr td"
    and "Rel (filepath e) td (Join (filepath e) vd ''terraform.tfstate'') = Inr rs"
    and "ReadDir (fs e) w vd = Inr names"
    and "\<forall>n \<in> set names. strings_HasSuffix n ''.tfvars''
           \<longrightarrow> Rel (filepath e) td (Join (filepath e) vd n) = Inr (r n)"
  shows "snd (fst (runTFCommandWithEnvs e (w, []) args envs)) =
    [RunWithEnv os_Stdout td
       (args @ [''-state'', rs] @
        concat (map (\<lambda>n. [''-var-file'', r n])
                    (filter (\<lambda>n. strings_HasSuffix n ''.tfvars'') names)))
       envs (debug e)]"
proof -
  let ?args = "(args @ [''-state'', rs]) @
        concat (map (\<lambda>n. [''-var-file'', r n])
                    (filter (\<lambda>n. strings_HasSuffix n ''.tfvars'') names))"
  have v: "varFiles (filepath e) td vd names (args @ [''-state'', rs]) = Inr ?args"
    using assms(5) by (rule varFiles_all)
  obtain w1 out1 res where "cmd e w (RunWithEnv os_Stdout td ?args envs (debug e)) = (w1, out1, res)"
    by (cases "cmd e w (RunWithEnv os_Stdout td ?args envs (debug e))") auto
  from runTFCommandWithEnvs_run [OF assms(1-4) v this]
  show ?thesis by simp
qed

text \<open>The Vars Directory of the specification: \<^verbatim>\<open>a.tfvars\<close>, \<^verbatim>\<open>b.tfvars\<close> and
  \<^verbatim>\<open>notes.txt\<close>.\<close>

theorem var_file_arguments_witness:
  "snd (fst (runTFCommandWithEnvs (fakeExecutor False (prints []))
       ([''a.tfvars'', ''b.tfvars'', ''notes.txt''], []) [''apply'', ''--auto-approve''] [])) =
    [RunWithEnv os_Stdout ''/state/terraform''
       [''apply'', ''--auto-approve'', ''-state'', ''../vars/terraform.tfstate'',
        ''-var-file'', ''../vars/a.tfvars'', ''-var-file'', ''../vars/b.tfvars''] [] False]"
  using var_file_arguments [where e = "fakeExecutor False (prints [])"
      and w = "[''a.tfvars'', ''b.tfvars'', ''notes.txt'']" and vd = "''/state/vars''"
      and td = "''/state/terraform''" and rs = "''../vars/terraform.tfstate''"
      and names = "[''a.tfvars'', ''b.tfvars'', ''notes.txt'']"
      and r = "\<lambda>n. ''../vars/'' @ n" and args = "[''apply'', ''--auto-approve'']" and envs = "[]"]
  by (simp add: fake_simps strings_HasSuffix_def)

section \<open>IsPaved\<close>

text \<open>
  Claim C7. When the \<^verbatim>\<open>show\<close> run of \<^verbatim>\<open>IsPaved\<close> succeeds, \<^verbatim>\<open>IsPaved\<close> returns false if
  the captured text is exactly \<^verbatim>\<open>No state.\<close> and true for every other captured text.
\<close>

theorem IsPaved_result:
  assumes "GetTerraformDir (stateStore e) w = Inr td"
    and "cmd e w (Run os_Stdout td [''init''] False) = (w1, out1, None)"
    and "GetVarsDir (stateStore e) w1 = Inr vd"
    and "cmd e w1 (Run buffer td
           ([''show''] @
            (if Stat (fs e) w1 (Join (filepath e) vd ''terraform.tfstate'') = None
             then [''-state'', Join (filepath e) vd ''terraform.tfstate''] else []))
           True) = (w2, captured, None)"
  shows "snd (IsPaved e (w, [])) = Inr (captured \<noteq> ''No state.'')"
  using IsPaved_run [OF assms(1-3) refl assms(4), of "[]"] by simp

text \<open>The exact text, the text with a trailing space, another text and the empty
  text.\<close>

theorem IsPaved_result_witness:
  "snd (IsPaved (fakeExecutor False (prints ''No state.'')) ([''a.tfvars''], [])) = Inr False
   \<and> snd (IsPaved (fakeExecutor False (prints ''No state. '')) ([''a.tfvars''], [])) = Inr True
   \<and> snd (IsPaved (fakeExecutor False (prints ''resource x'')) ([''terraform.tfstate''], [])) = Inr True
   \<and> snd (IsPaved (fakeExecutor False (prints [])) ([''terraform.tfstate''], [])) = Inr True"
  using
    IsPaved_result [where e = "fakeExecutor False (prints ''No state.'')" and w = "[''a.tfvars'']"
      and td = "''/state/terraform''" and vd = "''/state/vars''" and ?w1.0 = "[''a.tfvars'']"
      and ?w2.0 = "[''a.tfvars'']" and ?out1.0 = "[]" and captured = "''No state.''"]
    IsPaved_result [where e = "fakeExecutor False (prints ''No state. '')" and w = "[''a.tfvars'']"
      and td = "''/state/terraform''" and vd = "''/state/vars''" and ?w1.0 = "[''a.tfvars'']"
      and ?w2.0 = "[''a.tfvars'']" and ?out1.0 = "[]" and captured = "''No state. ''"]
    IsPaved_result [where e = "fakeExecutor False (prints ''resource x'')" and w = "[''terraform.tfstate'']"
      and td = "''/state/terraform''" and vd = "''/state/vars''" and ?w1.0 = "[''terraform.tfstate'']"
      and ?w2.0 = "[''terraform.tfstate'']" and ?out1.0 = "[]" and captured = "''resource x''"]
    IsPaved_result [where e = "fakeExecutor False (prints [])" and w = "[''terraform.tfstate'']"
      and td = "''/state/terraform''" and vd = "''/state/vars''" and ?w1.0 = "[''terraform.tfstate'']"
      and ?w2.0 = "[''terraform.tfstate'']" and ?out1.0 = "[]" and captured = "[]"]
  by (simp add: fake_simps)

section \<open>Output\<close>

text \<open>
  Claim C8. When its two runs succeed, \<^verbatim>\<open>Output\<close> returns the captured text with one
  trailing newline removed: a text \<open>s\<close> followed by a newline yields \<open>s\<close> (so a text
  ending in two newlines keeps one), and a text that does not end in a newline is
  returned as it is.
\<close>

theorem Output_trims_one_newline:
  "(GetTerraformDir (stateStore e) w = Inr td \<and> GetVarsDir (stateStore e) w = Inr vd
      \<and> cmd e w (Run os_Stdout td [''init''] (debug e)) = (w1, out1, None)
      \<and> cmd e w1 (Run buffer td
           ([''output'', name] @
            (if Stat (fs e) w1 (Join (filepath e) vd ''terraform.tfstate'') = None
             then [''-state'', Join (filepath e) vd ''terraform.tfstate''] else []))
           True) = (w2, captured, None)
    \<longrightarrow> snd (Output e (w, []) name) = Inr (strings_TrimSuffix captured [newline]))
   \<and> strings_TrimSuffix (s @ [newline]) [newline] = s
   \<and> (s = [] \<or> last s \<noteq> newline \<longrightarrow> strings_TrimSuffix s [newline] = s)"
proof (intro conjI impI)
  assume a: "GetTerraformDir (stateStore e) w = Inr td \<and> GetVarsDir (stateStore e) w = Inr vd
      \<and> cmd e w (Run os_Stdout td [''init''] (debug e)) = (w1, out1, None)
      \<and> cmd e w1 (Run buffer td
           ([''output'', name] @
            (if Stat (fs e) w1 (Join (filepath e) vd ''terraform.tfstate'') = None
             then [''-state'', Join (filepath e) vd ''terraform.tfstate''] else []))
           True) = (w2, captured, None)"
  then show "snd (Output e (w, []) name) = Inr (strings_TrimSuffix captured [newline])"
    using Output_run [of e w td vd w1 out1 _ name w2 captured None "[]", OF _ _ _ refl] by simp
next
  show "strings_TrimSuffix (s @ [newline]) [newline] = s"
    by (rule strings_TrimSuffix_newline_append)
next
  assume "s = [] \<or> last s \<noteq> newline"
  then show "strings_TrimSuffix s [newline] = s" by (rule strings_TrimSuffix_no_newline)
qed

text \<open>The captured texts \<^verbatim>\<open>bar\n\<close>, \<^verbatim>\<open>bar\n\n\<close> and \<^verbatim>\<open>bar \<close>.\<close>

theorem Output_trims_one_newline_witness:
  "snd (Output (fakeExecutor False (prints (''bar'' @ [newline]))) ([''terraform.tfstate''], []) ''foo'')
     = Inr ''bar''
   \<and> snd (Output (fakeExecutor False (prints (''bar'' @ [newline, newline]))) ([''terraform.tfstate''], []) ''foo'')
     = Inr (''bar'' @ [newline])
   \<and> snd (Output (fakeExecutor False (prints ''bar '')) ([''terraform.tfstate''], []) ''foo'')
     = Inr ''bar ''
   \<and> strings_TrimSuffix ''bar'' [newline] = ''bar''"
  using
    Output_trims_one_newline [where e = "fakeExecutor False (prints (''bar'' @ [newline]))"
      and w = "[''terraform.tfstate'']" and td = "''/state/terraform''" and vd = "''/state/vars''"
      and ?w1.0 = "[''terraform.tfstate'']" and ?w2.0 = "[''terraform.tfstate'']" and ?out1.0 = "[]"
      and captured = "''bar'' @ [newline]" and name = "''foo''" and s = "''bar''"]
    Output_trims_one_newline [where e = "fakeExecutor False (prints (''bar'' @ [newline, newline]))"
      and w = "[''terraform.tfstate'']" and td = "''/state/terraform''" and vd = "''/state/vars''"
      and ?w1.0 = "[''terraform.tfstate'']" and ?w2.0 = "[''terraform.tfstate'']" and ?out1.0 = "[]"
      and captured = "''bar'' @ [newline, newline]" and name = "''foo''" and s = "''bar'' @ [newline]"]
    Output_trims_one_newline [where e = "fakeExecutor False (prints ''bar '')"
      and w = "[''terraform.tfstate'']" and td = "''/state/terraform''" and vd = "''/state/vars''"
      and ?w1.0 = "[''terraform.tfstate'']" and ?w2.0 = "[''terraform.tfstate'']" and ?out1.0 = "[]"
      and captured = "''bar ''" and name = "''foo''" and s = "''bar ''"]
  by (simp add: fake_simps)

section \<open>The debug argument of every run\<close>

text \<open>
  Claim C9. For any executor, so for both values of its debug flag: the calls that
  \<^verbatim>\<open>Outputs\<close> and \<^verbatim>\<open>IsPaved\<close> make are, in order and at most, an \<^verbatim>\<open>init\<close> run to
  \<^verbatim>\<open>os.Stdout\<close> with the debug argument false and a capturing run with the debug
  argument true; those of \<^verbatim>\<open>Output\<close> are the same with the executor's own flag as the
  debug argument of \<^verbatim>\<open>init\<close>; \<^verbatim>\<open>Version\<close> makes one capturing run, with the debug
  argument true. The \<^verbatim>\<open>init\<close> run is made as soon as the directories resolve.
\<close>

theorem debug_arguments:
  "(\<exists>td args. snd (fst (Outputs e (w, []))) = []
       \<or> snd (fst (Outputs e (w, []))) = [Run os_Stdout td [''init''] False]
       \<or> snd (fst (Outputs e (w, []))) =
            [Run os_Stdout td [''init''] False, Run buffer td args True])
   \<and> (\<exists>td args. snd (fst (IsPaved e (w, []))) = []
       \<or> snd (fst (IsPaved e (w, []))) = [Run os_Stdout td [''init''] False]
       \<or> snd (fst (IsPaved e (w, []))) =
            [Run os_Stdout td [''init''] False, Run buffer td args True])
   \<and> (\<exists>td args. snd (fst (Output e (w, []) name)) = []
       \<or> snd (fst (Output e (w, []) name)) = [Run os_Stdout td [''init''] (debug e)]
       \<or> snd (fst (Output e (w, []) name)) =
            [Run os_Stdout td [''init''] (debug e), Run buffer td args True])
   \<and> snd (fst (Version e (w, []))) = [Run buffer ''/tmp'' [''version''] True]
   \<and> (GetTerraformDir (stateStore e) w = Inr td' \<and> GetVarsDir (stateStore e) w = Inr vd'
      \<longrightarrow> take 1 (snd (fst (Outputs e (w, [])))) = [Run os_Stdout td' [''init''] False]
        \<and> take 1 (snd (fst (Output e (w, []) name))) = [Run os_Stdout td' [''init''] (debug e)])
   \<and> (GetTerraformDir (stateStore e) w = Inr td'
      \<longrightarrow> take 1 (snd (fst (IsPaved e (w, [])))) = [Run os_Stdout td' [''init''] False])"
  using Outputs_calls [of e w] IsPaved_calls [of e w] Output_calls [of e w name]
    Version_calls [of e w] Outputs_first_call [of e w td' vd'] Output_first_call [of e w td' vd' name]
    IsPaved_first_call [of e w td']
  by blast

text \<open>The calls of the four methods, with the flag on, and of \<^verbatim>\<open>Output\<close> with the
  flag off.\<close>

theorem debug_arguments_witness:
  "snd (fst (Outputs (fakeExecutor True (prints ''{}'')) ([], []))) =
     [Run os_Stdout ''/state/terraform'' [''init''] False,
      Run buffer ''/state/terraform'' [''output'', ''--json''] True]
   \<and> snd (fst (IsPaved (fakeExecutor True (prints ''{}'')) ([], []))) =
     [Run os_Stdout ''/state/terraform'' [''init''] False,
      Run buffer ''/state/terraform'' [''show''] True]
   \<and> snd (fst (Output (fakeExecutor True (prints ''{}'')) ([], []) ''foo'')) =
     [Run os_Stdout ''/state/terraform'' [''init''] True,
      Run buffer ''/state/terraform'' [''output'', ''foo''] True]
   \<and> snd (fst (Output (fakeExecutor False (prints ''{}'')) ([], []) ''foo'')) =
     [Run os_Stdout ''/state/terraform'' [''init''] False,
      Run buffer ''/state/terraform'' [''output'', ''foo''] True]
   \<and> snd (fst (Version (fakeExecutor False (prints ''{}'')) ([], []))) =
     [Run buffer ''/tmp'' [''version''] True]"
  using
    debug_arguments [where e = "fakeExecutor True (prints ''{}'')" and w = "[]"
      and name = "''foo''" and td' = "''/state/terraform''" and vd' = "''/state/vars''"]
    debug_arguments [where e = "fakeExecutor False (prints ''{}'')" and w = "[]"
      and name = "''foo''" and td' = "''/state/terraform''" and vd' = "''/state/vars''"]
  by (simp add: fake_simps Outputs_def IsPaved_def Output_def Version_def cmd_call_def)

section \<open>The Variable Formatter: segments\<close>

text \<open>
  Claim C10. The text rendered for the empty mapping is empty. The text rendered for
  a mapping is one segment per entry, in the order of iteration, each a newline
  followed by \<^verbatim>\<open>name=value\<close>; so for a non-empty mapping it begins with a newline. It
  does not end with one when the last value is a string or a list of strings, as
  every value of a mapping of the Variable Formatter's contract is.
\<close>

theorem formatVars_segments:
  "formatVars [] = []
   \<and> formatVars inputs = concat (map (\<lambda>(name, v). [newline] @ name @ ''='' @ formatValue v) inputs)
   \<and> (inputs \<noteq> [] \<longrightarrow> formatVars inputs \<noteq> [] \<and> hd (formatVars inputs) = newline)
   \<and> (inputs \<noteq> [] \<and> (\<forall>t. snd (last inputs) \<noteq> Other t) \<longrightarrow> last (formatVars inputs) \<noteq> newline)"
proof (intro conjI impI)
  show "formatVars [] = []" by (simp add: formatVars_def)
  show "formatVars inputs = concat (map (\<lambda>(name, v). [newline] @ name @ ''='' @ formatValue v) inputs)"
    by (rule formatVars_concat)
next
  assume "inputs \<noteq> []"
  then obtain n v rest where "inputs = (n, v) # rest" by (cases inputs) auto
  then show "formatVars inputs \<noteq> []" "hd (formatVars inputs) = newline"
    by (simp_all add: formatVars_concat)
next
  assume a: "inputs \<noteq> [] \<and> (\<forall>t. snd (last inputs) \<noteq> Other t)"
  then obtain front n v where i: "inputs = front @ [(n, v)]"
    by (cases inputs rule: rev_cases) auto
  with a have "\<forall>t. v \<noteq> Other t" by simp
  then have "formatValue v \<noteq> [] \<and> last (formatValue v) \<noteq> newline" by (rule formatValue_last)
  then show "last (formatVars inputs) \<noteq> newline"
    by (simp add: i formatVars_append) (simp add: formatVars_concat)
qed

text \<open>A scalar and a list.\<close>

theorem formatVars_segments_witness:
  "formatVars [(''region'', Scalar ''us-east-1''), (''zones'', StringList [''a'', ''b''])] =
     [newline] @ ''region='' @ [dquote] @ ''us-east-1'' @ [dquote]
     @ [newline] @ ''zones=['' @ [dquote] @ ''a'' @ [dquote] @ '','' @ [dquote] @ ''b'' @ [dquote] @ '']''
   \<and> hd (formatVars [(''region'', Scalar ''us-east-1''), (''zones'', StringList [''a'', ''b''])]) = newline
   \<and> last (formatVars [(''region'', Scalar ''us-east-1''), (''zones'', StringList [''a'', ''b''])]) = CHR '']''"
  using formatVars_segments [where inputs =
      "[(''region'', Scalar ''us-east-1''), (''zones'', StringList [''a'', ''b''])]"]
  by (simp add: formatValue_Scalar) (simp add: formatValue_def)

end
